theory Spec2Isabelle
  imports Complex_Main "HOL-Library.AList"
begin

section \<open>Data model\<close>

text \<open>
  The objects handed to \<^verbatim>\<open>CombatSystem\<close> are plain JavaScript objects. A field that
  the code itself guards against being absent (\<^verbatim>\<open>character.skills || {}\<close>,
  \<^verbatim>\<open>attacker.equipment?.main_hand\<close>, an enemy literal without \<^verbatim>\<open>status\<close>) is an
  \<open>option\<close>; the other fields are always present. A skill map and an equipment map are
  association lists with distinct keys, looked up with \<open>map_of\<close>; levels, hit points and
  damage are JavaScript numbers holding integers and are modelled as \<open>int\<close>.
  Where a definition looks an id up as a number (\<open>skill_level\<close>, \<open>getWeaponDamage\<close>),
  the id is taken not to name a property inherited from \<^verbatim>\<open>Object.prototype\<close>; the
  definitions with the suffix \<open>_full\<close> cover every id.
\<close>

datatype status = Active | KnockedOut | Dead

type_synonym skill_map = "(string \<times> int) list"

record combatant =
  skills :: "skill_map option"
  equipment :: "(string \<times> string) list option"
  current_hp :: int
  status :: "status option"

record character = combatant +
  character_id :: nat
  character_name :: string
  max_hp :: int
  inventory :: "string list"
  x_position :: int
  y_position :: int

datatype error = CharacterNotFound | TypeError

text \<open>\<^verbatim>\<open>x || 0\<close> on a number that may be absent.\<close>

definition or_zero :: "int option \<Rightarrow> int" where
  "or_zero x = (case x of None \<Rightarrow> 0 | Some v \<Rightarrow> v)"

section \<open>CombatSystem\<close>

text \<open>
  \<^verbatim>\<open>Math.random()\<close> is the injected random source: every function that draws from it
  takes the value drawn, a real \<open>u\<close> with \<open>0 \<le> u < 1\<close>, as an argument, in the order
  in which the code draws.
\<close>

definition rollD20 :: "real \<Rightarrow> int" where
  "rollD20 u = \<lfloor>u * 20\<rfloor> + 1"

record modifiers =
  item :: "int option"
  buffs :: "int option"
  debuffs :: "int option"
  ability :: "int option"
  critical :: bool

definition no_modifiers :: modifiers where
  "no_modifiers = \<lparr>item = None, buffs = None, debuffs = None, ability = None, critical = False\<rparr>"

record roll_result =
  roll :: int
  total :: int
  roll_critical :: bool
  fumble :: bool
  breakdown_skill :: int
  breakdown_item :: int
  breakdown_buffs :: int
  breakdown_debuffs :: int

definition calculateAttackRoll :: "real \<Rightarrow> int \<Rightarrow> modifiers \<Rightarrow> roll_result" where
  "calculateAttackRoll u skillLevel mods =
     (let r = rollD20 u;
          itemBonus = or_zero (item mods);
          bf = or_zero (buffs mods);
          db = or_zero (debuffs mods);
          skillPenalty = (if skillLevel = 0 then - 5 else 0);
          t = r + skillLevel + itemBonus + bf - db + skillPenalty
      in \<lparr>roll = r, total = t, roll_critical = (r = 20), fumble = (r = 1),
          breakdown_skill = skillLevel + skillPenalty, breakdown_item = itemBonus,
          breakdown_buffs = bf, breakdown_debuffs = - db\<rparr>)"

definition skill_level :: "skill_map \<Rightarrow> string \<Rightarrow> int" where
  "skill_level sk skillId = or_zero (map_of sk skillId)"

definition calculateDefenseRoll :: "real \<Rightarrow> 'a combatant_scheme \<Rightarrow> modifiers \<Rightarrow> roll_result" where
  "calculateDefenseRoll u ch mods =
     (let sk = (case skills ch of None \<Rightarrow> [] | Some m \<Rightarrow> m);
          highestDefensiveSkill =
            max (skill_level sk ''dodge'') (max (skill_level sk ''shield_use'') (skill_level sk ''parry''))
      in calculateAttackRoll u highestDefensiveSkill mods)"

definition calculateDamage :: "int \<Rightarrow> int \<Rightarrow> modifiers \<Rightarrow> int" where
  "calculateDamage skillLevel weaponDamage mods =
     (let baseDamage = skillLevel div 5 + weaponDamage;
          baseDamage = (if or_zero (ability mods) \<noteq> 0 then baseDamage + or_zero (ability mods) else baseDamage);
          baseDamage = (if critical mods then baseDamage * 2 else baseDamage)
      in max 1 baseDamage)"

definition weaponStats :: "(string \<times> int) list" where
  "weaponStats = [(''rusty_sword'', 1), (''iron_sword'', 3), (''steel_sword'', 5),
                  (''simple_bow'', 2), (''flaming_sword'', 5)]"

definition getWeaponDamage :: "string option \<Rightarrow> int" where
  "getWeaponDamage weaponId =
     (case weaponId of None \<Rightarrow> 0 | Some w \<Rightarrow> or_zero (map_of weaponStats w))"

text \<open>\<^verbatim>\<open>attacker.equipment?.main_hand\<close>\<close>

definition main_hand :: "'a combatant_scheme \<Rightarrow> string option" where
  "main_hand ch = (case equipment ch of None \<Rightarrow> None | Some eq \<Rightarrow> map_of eq ''main_hand'')"

record attack_result =
  hit :: bool
  attackRoll :: roll_result
  defenseRoll :: roll_result
  damage :: int
  actualDamage :: int
  ar_critical :: bool
  ar_fumble :: bool
  skillUsed :: string
  skillLevel :: int

text \<open>
  \<^verbatim>\<open>resolveAttack\<close> draws the attack die (\<open>ua\<close>) and then the defense die (\<open>ud\<close>).
  \<^verbatim>\<open>attacker.skills[skillId]\<close> is an unguarded property read: it throws a TypeError
  when the attacker has no \<^verbatim>\<open>skills\<close>. The function assigns to no field of either
  object; like every operation here that receives objects by reference it returns
  their state after the call next to its result.
\<close>

definition resolveAttack ::
  "real \<Rightarrow> real \<Rightarrow> 'a combatant_scheme \<Rightarrow> 'b combatant_scheme \<Rightarrow> string \<Rightarrow> modifiers \<Rightarrow> modifiers
     \<Rightarrow> error + (attack_result \<times> 'a combatant_scheme \<times> 'b combatant_scheme)" where
  "resolveAttack ua ud attacker defender skillId attackModifiers defenseModifiers =
     (case skills attacker of
        None \<Rightarrow> Inl TypeError
      | Some sk \<Rightarrow>
          (let attackerSkill = skill_level sk skillId;
               weaponDamage = getWeaponDamage (main_hand attacker);
               aRoll = calculateAttackRoll ua attackerSkill attackModifiers;
               dRoll = calculateDefenseRoll ud defender defenseModifiers;
               h = (total aRoll \<ge> total dRoll);
               dmg = (if h then calculateDamage attackerSkill weaponDamage
                                  \<lparr>item = None, buffs = None, debuffs = None,
                                   ability = Some (or_zero (ability attackModifiers)),
                                   critical = roll_critical aRoll\<rparr>
                      else 0);
               actual = (if h then min dmg (current_hp defender) else 0)
           in Inr (\<lparr>hit = h, attackRoll = aRoll, defenseRoll = dRoll, damage = dmg,
                     actualDamage = actual, ar_critical = roll_critical aRoll,
                     ar_fumble = fumble aRoll, skillUsed = skillId, skillLevel = attackerSkill\<rparr>,
                   attacker, defender)))"

record progress_result =
  leveledUp :: bool
  newLevel :: int
  oldLevel :: int

text \<open>
  The progression chance in percent. For level \<open>-10\<close> JavaScript divides by zero and gets
  \<^verbatim>\<open>Infinity\<close>, below which every draw lies; \<open>progress_hit\<close> writes that case out.
\<close>

definition progressChance :: "int \<Rightarrow> real" where
  "progressChance currentLevel = 100 / (of_int currentLevel + 10)"

definition progress_hit :: "real \<Rightarrow> int \<Rightarrow> bool" where
  "progress_hit u currentLevel =
     (if currentLevel + 10 = 0 then True else u * 100 < progressChance currentLevel)"

definition processSkillProgression ::
  "real \<Rightarrow> 'a combatant_scheme \<Rightarrow> string \<Rightarrow> error + (progress_result \<times> 'a combatant_scheme)" where
  "processSkillProgression u ch skillId =
     (case skills ch of
        None \<Rightarrow> Inl TypeError
      | Some sk \<Rightarrow>
          (let currentLevel = skill_level sk skillId
           in if progress_hit u currentLevel
              then (let nl = min (currentLevel + 1) 100
                    in Inr (\<lparr>leveledUp = True, newLevel = nl, oldLevel = currentLevel\<rparr>,
                            ch\<lparr>skills := Some (AList.update skillId nl sk)\<rparr>))
              else Inr (\<lparr>leveledUp = False, newLevel = currentLevel, oldLevel = currentLevel\<rparr>, ch)))"

definition calculateTotalLevel :: "skill_map option \<Rightarrow> int" where
  "calculateTotalLevel sk = (case sk of None \<Rightarrow> 0 | Some m \<Rightarrow> sum_list (map snd m))"

definition calculateMaxHP :: "int \<Rightarrow> int" where
  "calculateMaxHP totalLevel = 20 + totalLevel div 10"

record damage_result =
  dr_newHP :: int
  wasKnockedOut :: bool
  died :: bool

definition applyDamage :: "'a combatant_scheme \<Rightarrow> int \<Rightarrow> damage_result \<times> 'a combatant_scheme" where
  "applyDamage target dmg =
     (let newHP = max 0 (current_hp target - dmg);
          wko = (current_hp target > 0 \<and> newHP = 0);
          d = (newHP = 0);
          target1 = target\<lparr>current_hp := newHP\<rparr>;
          target2 = (if d then target1\<lparr>status := Some (if status target1 = Some Active
                                                           then KnockedOut else Dead)\<rparr>
                     else target1)
      in (\<lparr>dr_newHP = newHP, wasKnockedOut = wko, died = d\<rparr>, target2))"

record healing_result =
  hr_newHP :: int
  actualHealing :: int

definition applyHealing :: "'a combatant_scheme \<Rightarrow> int \<Rightarrow> healing_result \<times> 'a combatant_scheme" where
  "applyHealing target healing =
     (let maxHP = calculateMaxHP (calculateTotalLevel (skills target));
          newHP = min maxHP (current_hp target + healing);
          actual = newHP - current_hp target
      in (\<lparr>hr_newHP = newHP, actualHealing = actual\<rparr>, target\<lparr>current_hp := newHP\<rparr>))"

text \<open>The position of a status in the lifecycle \<open>active \<rightarrow> knocked_out \<rightarrow> dead\<close>.\<close>

fun status_rank :: "status \<Rightarrow> nat" where
  "status_rank Active = 0"
| "status_rank KnockedOut = 1"
| "status_rank Dead = 2"

section \<open>CombatSystem: resolveAttack on every identifier\<close>

text \<open>
  \<^verbatim>\<open>attacker.skills[skillId]\<close> and \<^verbatim>\<open>weaponStats[weaponId]\<close> index plain objects, so
  an id that names a property inherited from \<^verbatim>\<open>Object.prototype\<close> and is not a key of
  the object itself yields that inherited member, a function or an object, and
  \<^verbatim>\<open>|| 0\<close> keeps it. The definitions of the section above work on numbers and are the
  code for ids that name no such property. This section gives \<^verbatim>\<open>resolveAttack\<close> with
  its helpers on every id. A value is a number, \<^verbatim>\<open>NaN\<close>, an inherited member, or the
  text that \<^verbatim>\<open>+\<close> makes of a member or of such a text and anything else: \<^verbatim>\<open>+\<close>
  concatenates as soon as one operand is a member or a text; \<^verbatim>\<open>-\<close>, \<^verbatim>\<open>*\<close>,
  \<^verbatim>\<open>/\<close>, \<^verbatim>\<open>Math.floor\<close>, \<^verbatim>\<open>Math.max\<close> and \<^verbatim>\<open>Math.min\<close> give \<^verbatim>\<open>NaN\<close>
  on anything but numbers; \<^verbatim>\<open>>=\<close> against a number is false on anything but a number.
\<close>

datatype jsval = Num int | NaN | Text | Member

definition object_prototype_names :: "string list" where
  "object_prototype_names =
     [''constructor'', ''hasOwnProperty'', ''isPrototypeOf'', ''propertyIsEnumerable'',
      ''toLocaleString'', ''toString'', ''valueOf'', ''__proto__'', ''__defineGetter__'',
      ''__defineSetter__'', ''__lookupGetter__'', ''__lookupSetter__'']"

definition index_or_zero :: "(string \<times> int) list \<Rightarrow> string \<Rightarrow> jsval" where
  "index_or_zero obj key =
     (case map_of obj key of
        Some v \<Rightarrow> Num v
      | None \<Rightarrow> if key \<in> set object_prototype_names then Member else Num 0)"

fun js_add :: "jsval \<Rightarrow> jsval \<Rightarrow> jsval" where
  "js_add (Num a) (Num b) = Num (a + b)"
| "js_add Text _ = Text"
| "js_add _ Text = Text"
| "js_add Member _ = Text"
| "js_add _ Member = Text"
| "js_add _ _ = NaN"

fun js_sub :: "jsval \<Rightarrow> jsval \<Rightarrow> jsval" where
  "js_sub (Num a) (Num b) = Num (a - b)"
| "js_sub _ _ = NaN"

fun js_mul :: "jsval \<Rightarrow> jsval \<Rightarrow> jsval" where
  "js_mul (Num a) (Num b) = Num (a * b)"
| "js_mul _ _ = NaN"

fun js_floor_div5 :: "jsval \<Rightarrow> jsval" where
  "js_floor_div5 (Num a) = Num (a div 5)"
| "js_floor_div5 _ = NaN"

fun js_max1 :: "jsval \<Rightarrow> jsval" where
  "js_max1 (Num a) = Num (max 1 a)"
| "js_max1 _ = NaN"

fun js_min_num :: "jsval \<Rightarrow> int \<Rightarrow> jsval" where
  "js_min_num (Num a) n = Num (min a n)"
| "js_min_num _ n = NaN"

fun js_ge_num :: "jsval \<Rightarrow> int \<Rightarrow> bool" where
  "js_ge_num (Num a) n = (a \<ge> n)"
| "js_ge_num _ n = False"

record roll_result_full =
  full_roll :: int
  full_total :: jsval
  full_roll_critical :: bool
  full_fumble :: bool
  full_breakdown_skill :: jsval
  full_breakdown_item :: int
  full_breakdown_buffs :: int
  full_breakdown_debuffs :: int

definition calculateAttackRoll_full :: "real \<Rightarrow> jsval \<Rightarrow> modifiers \<Rightarrow> roll_result_full" where
  "calculateAttackRoll_full u level mods =
     (let r = rollD20 u;
          itemBonus = or_zero (item mods);
          bf = or_zero (buffs mods);
          db = or_zero (debuffs mods);
          skillPenalty = (if level = Num 0 then - 5 else 0);
          t = js_add (js_sub (js_add (js_add (js_add (Num r) level) (Num itemBonus)) (Num bf)) (Num db))
                (Num skillPenalty)
      in \<lparr>full_roll = r, full_total = t, full_roll_critical = (r = 20), full_fumble = (r = 1),
          full_breakdown_skill = js_add level (Num skillPenalty), full_breakdown_item = itemBonus,
          full_breakdown_buffs = bf, full_breakdown_debuffs = - db\<rparr>)"

definition calculateDamage_full :: "jsval \<Rightarrow> jsval \<Rightarrow> modifiers \<Rightarrow> jsval" where
  "calculateDamage_full level weaponDamage mods =
     (let baseDamage = js_add (js_floor_div5 level) weaponDamage;
          baseDamage = (if or_zero (ability mods) \<noteq> 0 then js_add baseDamage (Num (or_zero (ability mods)))
                        else baseDamage);
          baseDamage = (if critical mods then js_mul baseDamage (Num 2) else baseDamage)
      in js_max1 baseDamage)"

definition getWeaponDamage_full :: "string option \<Rightarrow> jsval" where
  "getWeaponDamage_full weaponId =
     (case weaponId of None \<Rightarrow> Num 0 | Some w \<Rightarrow> index_or_zero weaponStats w)"

record attack_result_full =
  full_hit :: bool
  full_attackRoll :: roll_result_full
  full_defenseRoll :: roll_result
  full_damage :: jsval
  full_actualDamage :: jsval
  full_critical :: bool
  full_ar_fumble :: bool
  full_skillUsed :: string
  full_skillLevel :: jsval

definition resolveAttack_full ::
  "real \<Rightarrow> real \<Rightarrow> 'a combatant_scheme \<Rightarrow> 'b combatant_scheme \<Rightarrow> string \<Rightarrow> modifiers \<Rightarrow> modifiers
     \<Rightarrow> error + (attack_result_full \<times> 'a combatant_scheme \<times> 'b combatant_scheme)" where
  "resolveAttack_full ua ud attacker defender skillId attackModifiers defenseModifiers =
     (case skills attacker of
        None \<Rightarrow> Inl TypeError
      | Some sk \<Rightarrow>
          (let attackerSkill = index_or_zero sk skillId;
               weaponDamage = getWeaponDamage_full (main_hand attacker);
               aRoll = calculateAttackRoll_full ua attackerSkill attackModifiers;
               dRoll = calculateDefenseRoll ud defender defenseModifiers;
               h = js_ge_num (full_total aRoll) (total dRoll);
               dmg = (if h then calculateDamage_full attackerSkill weaponDamage
                                  \<lparr>item = None, buffs = None, debuffs = None,
                                   ability = Some (or_zero (ability attackModifiers)),
                                   critical = full_roll_critical aRoll\<rparr>
                      else Num 0);
               actual = (if h then js_min_num dmg (current_hp defender) else Num 0)
           in Inr (\<lparr>full_hit = h, full_attackRoll = aRoll, full_defenseRoll = dRoll, full_damage = dmg,
                     full_actualDamage = actual, full_critical = full_roll_critical aRoll,
                     full_ar_fumble = full_fumble aRoll, full_skillUsed = skillId,
                     full_skillLevel = attackerSkill\<rparr>,
                   attacker, defender)))"

definition roll_result_num :: "roll_result \<Rightarrow> roll_result_full" where
  "roll_result_num r =
     \<lparr>full_roll = roll r, full_total = Num (total r), full_roll_critical = roll_critical r,
      full_fumble = fumble r, full_breakdown_skill = Num (breakdown_skill r),
      full_breakdown_item = breakdown_item r, full_breakdown_buffs = breakdown_buffs r,
      full_breakdown_debuffs = breakdown_debuffs r\<rparr>"

definition attack_result_num :: "attack_result \<Rightarrow> attack_result_full" where
  "attack_result_num r =
     \<lparr>full_hit = hit r, full_attackRoll = roll_result_num (attackRoll r), full_defenseRoll = defenseRoll r,
      full_damage = Num (damage r), full_actualDamage = Num (actualDamage r),
      full_critical = ar_critical r, full_ar_fumble = ar_fumble r, full_skillUsed = skillUsed r,
      full_skillLevel = Num (skillLevel r)\<rparr>"

section \<open>The storage collaborator\<close>

text \<open>
  Modelled from the spec: the storage collaborator. The database helpers of the tick
  function (\<^verbatim>\<open>getGameInstance\<close>, \<^verbatim>\<open>getTickCommands\<close>, \<^verbatim>\<open>getCharacter\<close>,
  \<^verbatim>\<open>updateCharacter\<close>, \<^verbatim>\<open>updateCommand\<close>, \<^verbatim>\<open>updateGameInstance\<close>) are
  placeholders in the source that return fixed data; their contract is that of the
  record store of the specification: a read returns the first record that matches the
  filter (or all of them, for the commands of a tick), an update overwrites the given
  fields of the first record with the given id and does nothing when there is none.
  A table is the list of its records; a set of fields to write is a function on records.
  No operation of the store throws.
\<close>

datatype game_state = GameActive | GameCompleted | GameFailed

record game_instance =
  instance_id :: nat
  dungeon_id :: string
  characters :: "nat list"
  current_tick :: int
  current_room_index :: nat
  game_state :: game_state
  last_activity :: string

record dungeon =
  dungeon_key :: string
  room_sequence :: "string list"

datatype result_type = RAttack | RMove | RSkillCheck | RItemUse | RInteract | RUnknown

record skill_progress =
  sp_leveledUp :: bool
  sp_newLevel :: "int option"
  sp_oldLevel :: int

text \<open>
  An action result is a JavaScript object whose keys depend on the handler; an absent
  key is \<open>None\<close>. The narration and message texts are left out.
\<close>

record action_result =
  res_type :: "result_type option"
  success :: bool
  res_character :: "string option"
  res_character_id :: "nat option"
  res_target :: "string option"
  res_skill :: "string option"
  res_roll :: "int option"
  res_total :: "int option"
  res_defenseRoll :: "int option"
  res_dc :: "int option"
  res_damage :: "int option"
  res_critical :: "bool option"
  res_skillProgress :: "skill_progress option"
  res_item :: "string option"
  res_healing :: "int option"
  res_command :: "string option"
  res_error :: "error option"

definition empty_result :: action_result where
  "empty_result = \<lparr>res_type = None, success = False, res_character = None, res_character_id = None,
     res_target = None, res_skill = None, res_roll = None, res_total = None, res_defenseRoll = None,
     res_dc = None, res_damage = None, res_critical = None, res_skillProgress = None,
     res_item = None, res_healing = None, res_command = None, res_error = None\<rparr>"

record command =
  command_id :: nat
  cmd_instance_id :: nat
  cmd_character_id :: nat
  tick_number :: int
  raw_input :: string
  cmd_result :: "action_result option"

record store =
  game_instances :: "game_instance list"
  dungeons :: "dungeon list"
  commands :: "command list"
  characters_table :: "character list"

fun update_first :: "('a \<Rightarrow> bool) \<Rightarrow> ('a \<Rightarrow> 'a) \<Rightarrow> 'a list \<Rightarrow> 'a list" where
  "update_first P f [] = []"
| "update_first P f (x # xs) = (if P x then f x # xs else x # update_first P f xs)"

definition getGameInstance :: "store \<Rightarrow> nat \<Rightarrow> game_instance option" where
  "getGameInstance st instanceId = find (\<lambda>g. instance_id g = instanceId) (game_instances st)"

definition getDungeon :: "store \<Rightarrow> string \<Rightarrow> dungeon option" where
  "getDungeon st dungeonId = find (\<lambda>d. dungeon_key d = dungeonId) (dungeons st)"

definition getTickCommands :: "store \<Rightarrow> nat \<Rightarrow> int \<Rightarrow> command list" where
  "getTickCommands st instanceId tickNumber =
     filter (\<lambda>c. cmd_instance_id c = instanceId \<and> tick_number c = tickNumber) (commands st)"

definition getCharacter :: "store \<Rightarrow> nat \<Rightarrow> character option" where
  "getCharacter st characterId = find (\<lambda>c. character_id c = characterId) (characters_table st)"

definition updateCharacter :: "store \<Rightarrow> nat \<Rightarrow> (character \<Rightarrow> character) \<Rightarrow> store" where
  "updateCharacter st characterId updates =
     st\<lparr>characters_table := update_first (\<lambda>c. character_id c = characterId) updates (characters_table st)\<rparr>"

definition updateCommand :: "store \<Rightarrow> nat \<Rightarrow> action_result \<Rightarrow> store" where
  "updateCommand st commandId result =
     st\<lparr>commands := update_first (\<lambda>c. command_id c = commandId) (\<lambda>c. c\<lparr>cmd_result := Some result\<rparr>) (commands st)\<rparr>"

definition updateGameInstance :: "store \<Rightarrow> nat \<Rightarrow> (game_instance \<Rightarrow> game_instance) \<Rightarrow> store" where
  "updateGameInstance st instanceId updates =
     st\<lparr>game_instances := update_first (\<lambda>g. instance_id g = instanceId) updates (game_instances st)\<rparr>"

section \<open>The tick function: command parsing\<close>

datatype intent = IAttack | IMove | IUseSkill | IUseItem | IInteract | IUnknown

record parsed_intent =
  intent :: intent
  target :: "string option"
  skill_suggested :: "string option"
  confidence :: real

text \<open>
  \<^verbatim>\<open>input.toLowerCase().trim().split(/\s+/)\<close> on ASCII text. The words are the maximal
  runs of non-space characters; the empty word that JavaScript yields for an empty input
  is in no keyword list and is dropped.
\<close>

definition to_lower_char :: "char \<Rightarrow> char" where
  "to_lower_char c =
     (case map_of (zip ''ABCDEFGHIJKLMNOPQRSTUVWXYZ'' ''abcdefghijklmnopqrstuvwxyz'') c of
        None \<Rightarrow> c | Some l \<Rightarrow> l)"

definition is_space :: "char \<Rightarrow> bool" where
  "is_space c = (c \<in> set [CHR 0x09, CHR 0x0A, CHR 0x0B, CHR 0x0C, CHR 0x0D, CHR 0x20])"

fun split_words :: "string \<Rightarrow> string \<Rightarrow> string list" where
  "split_words w [] = (if w = [] then [] else [w])"
| "split_words w (c # cs) =
     (if is_space c then (if w = [] then split_words [] cs else w # split_words [] cs)
      else split_words (w @ [c]) cs)"

definition some_in :: "string list \<Rightarrow> string list \<Rightarrow> bool" where
  "some_in ws keywords = list_ex (\<lambda>w. w \<in> set keywords) ws"

definition parseCommandFallback :: "string \<Rightarrow> parsed_intent" where
  "parseCommandFallback input =
     (let ws = split_words [] (map to_lower_char input)
      in if some_in ws [''attack'', ''hit'', ''strike'', ''fight'', ''kill'']
         then \<lparr>intent = IAttack, target = Some ''goblin'', skill_suggested = Some ''swordsmanship'',
               confidence = 0.8\<rparr>
         else if some_in ws [''move'', ''go'', ''walk'', ''run'', ''step'']
         then \<lparr>intent = IMove, target = None, skill_suggested = Some ''navigation'', confidence = 0.7\<rparr>
         else if some_in ws [''defend'', ''block'', ''guard'', ''shield'', ''protect'']
         then \<lparr>intent = IUseSkill, target = None, skill_suggested = Some ''shield_use'', confidence = 0.8\<rparr>
         else if some_in ws [''use'', ''drink'', ''consume'', ''apply'']
         then \<lparr>intent = IUseItem, target = Some ''health_potion'', skill_suggested = None, confidence = 0.7\<rparr>
         else \<lparr>intent = IUnknown, target = None, skill_suggested = None, confidence = 0.1\<rparr>)"

text \<open>\<^verbatim>\<open>parsedIntent.skill_suggested || dflt\<close>: an absent or empty string gives the default.\<close>

definition skill_or :: "string option \<Rightarrow> string \<Rightarrow> string" where
  "skill_or s dflt = (case s of None \<Rightarrow> dflt | Some x \<Rightarrow> if x = [] then dflt else x)"

section \<open>The tick function: command handlers\<close>

text \<open>
  The values that \<^verbatim>\<open>Math.random()\<close> yields while one command is handled, in the order
  of the calls: an attack draws the attack die, the defense die and the progression
  draw; a move draws for x and then for y; a skill check draws the die and the
  progression draw.
\<close>

record draws =
  draw1 :: real
  draw2 :: real
  draw3 :: real

text \<open>The enemy that both attack handlers build afresh on every call.\<close>

record enemy = combatant +
  enemy_id :: string
  enemy_name :: string
  enemy_max_hp :: int

definition goblinEnemy :: enemy where
  "goblinEnemy = \<lparr>skills = Some [(''swordsmanship'', 5), (''dodge'', 3)], equipment = None,
                   current_hp = 10, status = None,
                   enemy_id = ''goblin_1'', enemy_name = ''Goblin'', enemy_max_hp = 10\<rparr>"

text \<open>
  The handlers of \<^verbatim>\<open>api/game-tick.js\<close>. Each returns its result and the store after
  its writes; the character object is the one just read by \<^verbatim>\<open>getCharacter\<close> and is
  dropped afterwards. A read of \<^verbatim>\<open>character.skills[skillId]\<close> on a character without
  a skill map throws before anything is written.
\<close>

definition processAttackCommand ::
  "draws \<Rightarrow> store \<Rightarrow> character \<Rightarrow> parsed_intent \<Rightarrow> game_instance \<Rightarrow> error + (action_result \<times> store)" where
  "processAttackCommand d st ch parsedIntent gameInstance =
     (let skillId = skill_or (skill_suggested parsedIntent) ''swordsmanship''
      in case skills ch of
           None \<Rightarrow> Inl TypeError
         | Some sk \<Rightarrow>
             (let lvl = skill_level sk skillId;
                  aRoll = rollD20 (draw1 d) + lvl;
                  dRoll = rollD20 (draw2 d)
                            + or_zero (map_of (case skills goblinEnemy of None \<Rightarrow> [] | Some m \<Rightarrow> m) ''dodge'');
                  h = (aRoll \<ge> dRoll);
                  dmg = (if h then (let b = max 1 (lvl div 5 + 1)
                                    in if aRoll - lvl = 20 then b * 2 else b)
                         else 0);
                  lvlUp = progress_hit (draw3 d) lvl;
                  sk' = (if lvlUp then AList.update skillId (min (lvl + 1) 100) sk else sk);
                  st' = (if lvlUp then updateCharacter st (character_id ch) (\<lambda>c. c\<lparr>skills := Some sk'\<rparr>)
                         else st)
              in Inr (empty_result\<lparr>res_type := Some RAttack, success := h,
                        res_character := Some (character_name ch),
                        res_target := Some (enemy_name goblinEnemy),
                        res_skill := Some skillId, res_roll := Some (aRoll - lvl),
                        res_total := Some aRoll, res_defenseRoll := Some dRoll,
                        res_damage := Some dmg, res_critical := Some (aRoll - lvl = 20),
                        res_skillProgress := Some \<lparr>sp_leveledUp = lvlUp, sp_newLevel = map_of sk' skillId,
                                                    sp_oldLevel = lvl\<rparr>\<rparr>,
                      st')))"

definition processMoveCommand ::
  "draws \<Rightarrow> store \<Rightarrow> character \<Rightarrow> parsed_intent \<Rightarrow> game_instance \<Rightarrow> error + (action_result \<times> store)" where
  "processMoveCommand d st ch parsedIntent gameInstance =
     (let newX = max 1 (min 18 (x_position ch + (if draw1 d > 0.5 then 1 else - 1)));
          newY = max 1 (min 8 (y_position ch + (if draw2 d > 0.5 then 1 else - 1)));
          st' = updateCharacter st (character_id ch) (\<lambda>c. c\<lparr>x_position := newX, y_position := newY\<rparr>)
      in Inr (empty_result\<lparr>res_type := Some RMove, success := True,
                res_character := Some (character_name ch)\<rparr>, st'))"

definition processSkillCommand ::
  "draws \<Rightarrow> store \<Rightarrow> character \<Rightarrow> parsed_intent \<Rightarrow> game_instance \<Rightarrow> error + (action_result \<times> store)" where
  "processSkillCommand d st ch parsedIntent gameInstance =
     (let skillId = skill_or (skill_suggested parsedIntent) ''perception''
      in case skills ch of
           None \<Rightarrow> Inl TypeError
         | Some sk \<Rightarrow>
             (let lvl = skill_level sk skillId;
                  r = rollD20 (draw1 d);
                  t = r + lvl;
                  dc = 16;
                  ok = (t \<ge> dc);
                  lvlUp = progress_hit (draw2 d) lvl;
                  sk' = (if lvlUp then AList.update skillId (min (lvl + 1) 100) sk else sk);
                  st' = (if lvlUp then updateCharacter st (character_id ch) (\<lambda>c. c\<lparr>skills := Some sk'\<rparr>)
                         else st)
              in Inr (empty_result\<lparr>res_type := Some RSkillCheck, success := ok,
                        res_character := Some (character_name ch), res_skill := Some skillId,
                        res_roll := Some r, res_total := Some t, res_dc := Some dc,
                        res_skillProgress := Some \<lparr>sp_leveledUp = lvlUp, sp_newLevel = map_of sk' skillId,
                                                    sp_oldLevel = lvl\<rparr>\<rparr>,
                      st')))"

definition processItemCommand ::
  "store \<Rightarrow> character \<Rightarrow> parsed_intent \<Rightarrow> game_instance \<Rightarrow> error + (action_result \<times> store)" where
  "processItemCommand st ch parsedIntent gameInstance =
     (if ''health_potion'' \<in> set (inventory ch)
      then (let healing = 15;
                newHP = min (max_hp ch) (current_hp ch + healing);
                actual = newHP - current_hp ch;
                newInventory = filter (\<lambda>i. i \<noteq> ''health_potion'') (inventory ch);
                st' = updateCharacter st (character_id ch)
                        (\<lambda>c. c\<lparr>current_hp := newHP, inventory := newInventory\<rparr>)
            in Inr (empty_result\<lparr>res_type := Some RItemUse, success := True,
                      res_character := Some (character_name ch), res_item := Some ''Health Potion'',
                      res_healing := Some actual\<rparr>, st'))
      else Inr (empty_result\<lparr>res_type := Some RItemUse, success := False,
                  res_character := Some (character_name ch)\<rparr>, st))"

definition processInteractCommand ::
  "store \<Rightarrow> character \<Rightarrow> parsed_intent \<Rightarrow> game_instance \<Rightarrow> error + (action_result \<times> store)" where
  "processInteractCommand st ch parsedIntent gameInstance =
     Inr (empty_result\<lparr>res_type := Some RInteract, success := True,
            res_character := Some (character_name ch)\<rparr>, st)"

definition processCommand ::
  "draws \<Rightarrow> store \<Rightarrow> command \<Rightarrow> game_instance \<Rightarrow> error + (action_result \<times> store)" where
  "processCommand d st cmd gameInstance =
     (case getCharacter st (cmd_character_id cmd) of
        None \<Rightarrow> Inl CharacterNotFound
      | Some ch \<Rightarrow>
          (let parsedIntent = parseCommandFallback (raw_input cmd);
               handled =
                 (case intent parsedIntent of
                    IAttack \<Rightarrow> processAttackCommand d st ch parsedIntent gameInstance
                  | IMove \<Rightarrow> processMoveCommand d st ch parsedIntent gameInstance
                  | IUseSkill \<Rightarrow> processSkillCommand d st ch parsedIntent gameInstance
                  | IUseItem \<Rightarrow> processItemCommand st ch parsedIntent gameInstance
                  | IInteract \<Rightarrow> processInteractCommand st ch parsedIntent gameInstance
                  | IUnknown \<Rightarrow>
                      Inr (empty_result\<lparr>res_type := Some RUnknown, success := False,
                             res_character := Some (character_name ch),
                             res_command := Some (raw_input cmd)\<rparr>, st))
           in case handled of
                Inl e \<Rightarrow> Inl e
              | Inr (result, st') \<Rightarrow> Inr (result\<lparr>res_character_id := Some (character_id ch)\<rparr>, st')))"

section \<open>The tick function: one tick\<close>

text \<open>The record that the \<^verbatim>\<open>catch\<close> inside the command loop pushes.\<close>

definition command_failure :: "command \<Rightarrow> error \<Rightarrow> action_result" where
  "command_failure cmd e =
     empty_result\<lparr>res_character_id := Some (cmd_character_id cmd), success := False, res_error := Some e\<rparr>"

text \<open>
  The loop over the commands of the tick, in the order in which the store returned
  them. \<open>rnd k\<close> holds the draws of the \<open>k\<close>-th command still to be handled.
\<close>

fun process_commands ::
  "(nat \<Rightarrow> draws) \<Rightarrow> game_instance \<Rightarrow> command list \<Rightarrow> store \<Rightarrow> action_result list \<times> store" where
  "process_commands rnd gameInstance [] st = ([], st)"
| "process_commands rnd gameInstance (cmd # cmds) st =
     (case processCommand (rnd 0) st cmd gameInstance of
        Inr (result, st1) \<Rightarrow>
          (let st2 = updateCommand st1 (command_id cmd) result;
               rest = process_commands (\<lambda>k. rnd (Suc k)) gameInstance cmds st2
           in (result # fst rest, snd rest))
      | Inl e \<Rightarrow>
          (let rest = process_commands (\<lambda>k. rnd (Suc k)) gameInstance cmds st
           in (command_failure cmd e # fst rest, snd rest)))"

record room_status =
  completed :: bool
  advance :: bool
  reason :: string

definition checkRoomCompletion :: "game_instance \<Rightarrow> action_result list \<Rightarrow> room_status" where
  "checkRoomCompletion gameInstance results =
     \<lparr>completed = False, advance = False, reason = ''Combat ongoing''\<rparr>"

datatype tick_outcome =
    NotFound
  | NotActive
  | Waiting (submitted: nat) (expected: nat)
  | Processed (pr_instance: nat) (pr_tick: int) (pr_results: "action_result list")
      (pr_next_tick: int) (pr_room_status: room_status)

text \<open>
  \<^verbatim>\<open>processGameTick\<close> in its two stretches: the reads up to the decision whether to
  process (lines 46 to 70), and the command loop with the write of the next tick
  (lines 72 to 111), which works on the instance object and the command list read in
  the first stretch. \<open>now\<close> is the time stamp of the write.
\<close>

datatype observation = Done tick_outcome | Ready game_instance "command list"

definition tick_observe :: "store \<Rightarrow> nat \<Rightarrow> bool \<Rightarrow> observation" where
  "tick_observe st instanceId force =
     (case getGameInstance st instanceId of
        None \<Rightarrow> Done NotFound
      | Some gameInstance \<Rightarrow>
          if game_state gameInstance \<noteq> GameActive then Done NotActive
          else (let currentTick = current_tick gameInstance;
                    cmds = getTickCommands st instanceId currentTick;
                    expectedPlayers = length (characters gameInstance)
                in if length cmds < expectedPlayers \<and> \<not> force
                   then Done (Waiting (length cmds) expectedPlayers)
                   else Ready gameInstance cmds))"

definition tick_resolve_commit ::
  "string \<Rightarrow> (nat \<Rightarrow> draws) \<Rightarrow> game_instance \<Rightarrow> command list \<Rightarrow> store \<Rightarrow> nat \<Rightarrow> tick_outcome \<times> store" where
  "tick_resolve_commit now rnd gameInstance cmds st instanceId =
     (let currentTick = current_tick gameInstance;
          processed = process_commands rnd gameInstance cmds st;
          results = fst processed;
          nextTick = currentTick + 1;
          st' = updateGameInstance (snd processed) instanceId
                  (\<lambda>g. g\<lparr>current_tick := nextTick, last_activity := now\<rparr>);
          roomStatus = checkRoomCompletion gameInstance results
      in (Processed instanceId currentTick results nextTick roomStatus, st'))"

definition processGameTick ::
  "string \<Rightarrow> (nat \<Rightarrow> draws) \<Rightarrow> store \<Rightarrow> nat \<Rightarrow> bool \<Rightarrow> tick_outcome \<times> store" where
  "processGameTick now rnd st instanceId force =
     (case tick_observe st instanceId force of
        Done outcome \<Rightarrow> (outcome, st)
      | Ready gameInstance cmds \<Rightarrow> tick_resolve_commit now rnd gameInstance cmds st instanceId)"

text \<open>
  Two invocations for one instance in the schedule in which both have finished their
  reads before either starts its loop: the first then runs to its end, and the second
  after it, on the store that the first left.
\<close>

definition two_ticks_interleaved ::
  "string \<Rightarrow> (nat \<Rightarrow> draws) \<Rightarrow> (nat \<Rightarrow> draws) \<Rightarrow> store \<Rightarrow> nat \<Rightarrow> bool
     \<Rightarrow> (tick_outcome \<times> tick_outcome \<times> store) option" where
  "two_ticks_interleaved now rndA rndB st instanceId force =
     (case (tick_observe st instanceId force, tick_observe st instanceId force) of
        (Ready giA cmdsA, Ready giB cmdsB) \<Rightarrow>
          (let a = tick_resolve_commit now rndA giA cmdsA st instanceId;
               b = tick_resolve_commit now rndB giB cmdsB (snd a) instanceId
           in Some (fst a, fst b, snd b))
      | _ \<Rightarrow> None)"

section \<open>GameEngine\<close>

text \<open>
  The handlers of the \<^verbatim>\<open>GameEngine\<close> class work through \<^verbatim>\<open>CombatSystem\<close>, which
  mutates the character object; they return their result, the character object and the
  enemy object after the call, and the store after their writes.
\<close>

record engine_attack =
  ea_success :: bool
  ea_attackResult :: attack_result
  ea_skillProgress :: progress_result
  ea_character :: string
  ea_target :: string
  ea_skillUsed :: string

definition GameEngine_processAttackCommand ::
  "draws \<Rightarrow> store \<Rightarrow> character \<Rightarrow> parsed_intent \<Rightarrow> error + (engine_attack \<times> character \<times> enemy \<times> store)" where
  "GameEngine_processAttackCommand d st ch parsedIntent =
     (let skillId = skill_or (skill_suggested parsedIntent) ''swordsmanship''
      in case resolveAttack (draw1 d) (draw2 d) ch goblinEnemy skillId no_modifiers no_modifiers of
           Inl e \<Rightarrow> Inl e
         | Inr (attackResult, ch1, goblin1) \<Rightarrow>
             (case processSkillProgression (draw3 d) ch1 skillId of
                Inl e \<Rightarrow> Inl e
              | Inr (skillProgress, ch2) \<Rightarrow>
                  (let st' = (if leveledUp skillProgress
                              then updateCharacter st (character_id ch2) (\<lambda>c. c\<lparr>skills := skills ch2\<rparr>)
                              else st)
                   in Inr (\<lparr>ea_success = hit attackResult, ea_attackResult = attackResult,
                             ea_skillProgress = skillProgress, ea_character = character_name ch2,
                             ea_target = enemy_name goblin1, ea_skillUsed = skillId\<rparr>,
                           ch2, goblin1, st'))))"




section \<open>Sample objects\<close>

text \<open>
  The character of the placeholder \<^verbatim>\<open>getCharacter\<close> of the tick function, with the
  starting equipment that \<^verbatim>\<open>createCharacter\<close> gives, and a store with one instance,
  that character and one command.
\<close>

definition hero :: character where
  "hero = \<lparr>skills = Some [(''swordsmanship'', 5), (''dodge'', 3)],
            equipment = Some [(''main_hand'', ''rusty_sword''), (''chest'', ''cloth_armor'')],
            current_hp = 20, status = Some Active,
            character_id = 1, character_name = ''Hero'', max_hp = 20,
            inventory = [''health_potion''], x_position = 10, y_position = 5\<rparr>"

definition instance0 :: game_instance where
  "instance0 = \<lparr>instance_id = 1, dungeon_id = ''goblin_warren'', characters = [1], current_tick = 1,
                 current_room_index = 0, game_state = GameActive, last_activity = ''t0''\<rparr>"

definition command0 :: command where
  "command0 = \<lparr>command_id = 1, cmd_instance_id = 1, cmd_character_id = 1, tick_number = 1,
                raw_input = ''attack the goblin'', cmd_result = None\<rparr>"

definition store0 :: store where
  "store0 = \<lparr>game_instances = [instance0],
              dungeons = [\<lparr>dungeon_key = ''goblin_warren'', room_sequence = [''entrance'']\<rparr>],
              commands = [command0], characters_table = [hero]\<rparr>"

text \<open>Draws that make an attack of \<open>hero\<close> a critical hit without a level-up.\<close>

definition draws0 :: draws where
  "draws0 = \<lparr>draw1 = 19 / 20, draw2 = 0, draw3 = 1 / 2\<rparr>"

definition rnd0 :: "nat \<Rightarrow> draws" where
  "rnd0 k = draws0"

text \<open>The result of the attack of \<open>hero\<close> under \<open>draws0\<close> in the tick function.\<close>

definition attack0 :: action_result where
  "attack0 = empty_result\<lparr>res_type := Some RAttack, success := True, res_character := Some ''Hero'',
               res_character_id := Some 1, res_target := Some ''Goblin'',
               res_skill := Some ''swordsmanship'', res_roll := Some 20, res_total := Some 25,
               res_defenseRoll := Some 4, res_damage := Some 4, res_critical := Some True,
               res_skillProgress := Some \<lparr>sp_leveledUp = False, sp_newLevel = Some 5, sp_oldLevel = 5\<rparr>\<rparr>"

text \<open>A second command for the same tick, from a character that the store does not hold.\<close>

definition command_stray :: command where
  "command_stray = \<lparr>command_id = 2, cmd_instance_id = 1, cmd_character_id = 7, tick_number = 1,
                     raw_input = ''attack'', cmd_result = None\<rparr>"

text \<open>The result of the same attack in \<^verbatim>\<open>GameEngine\<close>.\<close>

definition engine_attack0 :: engine_attack where
  "engine_attack0 =
     \<lparr>ea_success = True,
      ea_attackResult =
        \<lparr>hit = True,
         attackRoll = \<lparr>roll = 20, total = 25, roll_critical = True, fumble = False,
                       breakdown_skill = 5, breakdown_item = 0, breakdown_buffs = 0,
                       breakdown_debuffs = 0\<rparr>,
         defenseRoll = \<lparr>roll = 1, total = 4, roll_critical = False, fumble = True,
                        breakdown_skill = 3, breakdown_item = 0, breakdown_buffs = 0,
                        breakdown_debuffs = 0\<rparr>,
         damage = 4, actualDamage = 4, ar_critical = True, ar_fumble = False,
         skillUsed = ''swordsmanship'', skillLevel = 5\<rparr>,
      ea_skillProgress = \<lparr>leveledUp = False, newLevel = 5, oldLevel = 5\<rparr>,
      ea_character = ''Hero'', ea_target = ''Goblin'', ea_skillUsed = ''swordsmanship''\<rparr>"


text \<open>A wounded \<open>hero\<close> with a stray command and a command to drink the potion, and the
  result of the latter.\<close>

definition command_potion :: command where
  "command_potion = \<lparr>command_id = 3, cmd_instance_id = 1, cmd_character_id = 1, tick_number = 1,
                      raw_input = ''drink the potion'', cmd_result = None\<rparr>"

definition potion0 :: action_result where
  "potion0 = empty_result\<lparr>res_type := Some RItemUse, success := True, res_character := Some ''Hero'',
               res_character_id := Some 1, res_item := Some ''Health Potion'',
               res_healing := Some 15\<rparr>"

definition store_wounded :: store where
  "store_wounded = store0\<lparr>commands := [command_stray, command_potion],
                          characters_table := [hero\<lparr>current_hp := 5\<rparr>]\<rparr>"



section \<open>Properties of the combat engine\<close>

lemma skill_level_update: "skill_level (AList.update k v sk) k = v"
  by (simp add: skill_level_def or_zero_def update_conv')

text \<open>
  Claim C5. Whenever \<^verbatim>\<open>resolveAttack\<close> returns a breakdown, \<open>hit\<close> holds in it exactly
  when the attack roll total is at least the defense roll total; on a hit
  \<open>actualDamage\<close> is \<open>min damage (current_hp defender)\<close> and so never exceeds the
  defender's hit points (on a miss it is \<open>0\<close>, which exceeds no non-negative hit
  points); and both objects come back as they went in. It returns a breakdown for
  every attacker that has a skill map.
\<close>

theorem resolveAttack_hit_and_clamp:
  "(\<forall>r a' d'. resolveAttack ua ud attacker defender skillId am dm = Inr (r, a', d') \<longrightarrow>
        hit r = (total (attackRoll r) \<ge> total (defenseRoll r))
      \<and> attackRoll r = calculateAttackRoll ua (skillLevel r) am
      \<and> defenseRoll r = calculateDefenseRoll ud defender dm
      \<and> (hit r \<longrightarrow> damage r = calculateDamage (skillLevel r) (getWeaponDamage (main_hand attacker))
             \<lparr>item = None, buffs = None, debuffs = None, ability = Some (or_zero (ability am)),
              critical = (rollD20 ua = 20)\<rparr>)
      \<and> (hit r \<longrightarrow> actualDamage r = min (damage r) (current_hp defender))
      \<and> (hit r \<longrightarrow> actualDamage r \<le> current_hp defender)
      \<and> (\<not> hit r \<longrightarrow> damage r = 0 \<and> actualDamage r = 0)
      \<and> (0 \<le> current_hp defender \<longrightarrow> actualDamage r \<le> current_hp defender)
      \<and> d' = defender \<and> a' = attacker)
   \<and> (\<forall>sk. skills attacker = Some sk \<longrightarrow>
        (\<exists>r. resolveAttack ua ud attacker defender skillId am dm = Inr (r, attacker, defender)
           \<and> skillLevel r = skill_level sk skillId))"
  by (auto simp add: resolveAttack_def Let_def calculateAttackRoll_def split: option.splits)

lemma status_rank_le: "status_rank s \<le> 2"
  by (cases s) simp_all

text \<open>
  Claim C7. For a target whose hit points lie in \<open>[0, max]\<close>, \<open>max\<close> being the
  maximum that \<^verbatim>\<open>applyHealing\<close> derives from the skill levels, and a non-negative
  amount: \<^verbatim>\<open>applyDamage\<close> and \<^verbatim>\<open>applyHealing\<close> leave the hit points in
  \<open>[0, max]\<close>; damage that leaves \<open>0\<close> hit points takes \<open>active\<close> to
  \<open>knocked_out\<close> and \<open>knocked_out\<close> to \<open>dead\<close>, so a second application after a
  first lethal one ends in \<open>dead\<close>; the status never moves backward; healing only raises
  the hit points and leaves the status alone.
\<close>

theorem applyDamage_applyHealing_invariant:
  assumes "0 \<le> amount" and "0 \<le> amount2" and "0 \<le> current_hp t"
    and "current_hp t \<le> calculateMaxHP (calculateTotalLevel (skills t))"
  shows "current_hp (snd (applyDamage t amount)) = max 0 (current_hp t - amount)
     \<and> 0 \<le> current_hp (snd (applyDamage t amount))
     \<and> current_hp (snd (applyDamage t amount)) \<le> current_hp t
     \<and> current_hp (snd (applyDamage t amount)) \<le> calculateMaxHP (calculateTotalLevel (skills (snd (applyDamage t amount))))
     \<and> (current_hp (snd (applyDamage t amount)) = 0 \<and> status t = Some Active
           \<longrightarrow> status (snd (applyDamage t amount)) = Some KnockedOut)
     \<and> (current_hp (snd (applyDamage t amount)) = 0 \<and> status t = Some KnockedOut
           \<longrightarrow> status (snd (applyDamage t amount)) = Some Dead)
     \<and> (current_hp (snd (applyDamage t amount)) \<noteq> 0 \<longrightarrow> status (snd (applyDamage t amount)) = status t)
     \<and> (status t = Some Active \<and> current_hp t \<le> amount
           \<longrightarrow> status (snd (applyDamage (snd (applyDamage t amount)) amount2)) = Some Dead)
     \<and> (\<forall>s. status t = Some s \<longrightarrow>
           (\<exists>s'. status (snd (applyDamage t amount)) = Some s' \<and> status_rank s \<le> status_rank s'))
     \<and> current_hp (snd (applyHealing t amount)) = min (calculateMaxHP (calculateTotalLevel (skills t))) (current_hp t + amount)
     \<and> current_hp t \<le> current_hp (snd (applyHealing t amount))
     \<and> 0 \<le> current_hp (snd (applyHealing t amount))
     \<and> current_hp (snd (applyHealing t amount)) \<le> calculateMaxHP (calculateTotalLevel (skills (snd (applyHealing t amount))))
     \<and> status (snd (applyHealing t amount)) = status t"
  using assms by (auto simp add: applyDamage_def applyHealing_def Let_def status_rank_le)

lemma progressChance_pos: "0 \<le> L \<Longrightarrow> 0 < progressChance L \<and> progressChance L \<le> 100"
  by (simp add: progressChance_def field_simps)

lemma progressChance_antimono: "0 \<le> L \<Longrightarrow> L < L' \<Longrightarrow> progressChance L' < progressChance L"
  by (simp add: progressChance_def field_simps)

text \<open>
  Claim C8. For a skill level \<open>L\<close> in \<open>[0, 100]\<close> the progression chance is
  \<open>100 / (L + 10)\<close>, lies in \<open>(0, 100]\<close> and is strictly decreasing in \<open>L\<close>; a draw
  below the chance stores level \<open>min (L + 1) 100\<close>, any other draw changes nothing, and
  the stored level never decreases.
\<close>

theorem processSkillProgression_chance:
  assumes "skills ch = Some sk" and "skill_level sk skillId = L" and "0 \<le> L" and "L \<le> 100"
  shows "progressChance L = 100 / (of_int L + 10)
     \<and> 0 < progressChance L \<and> progressChance L \<le> 100
     \<and> (\<forall>L'. L < L' \<and> L' \<le> 100 \<longrightarrow> progressChance L' < progressChance L)
     \<and> (u * 100 < progressChance L \<longrightarrow>
          processSkillProgression u ch skillId =
            Inr (\<lparr>leveledUp = True, newLevel = min (L + 1) 100, oldLevel = L\<rparr>,
                 ch\<lparr>skills := Some (AList.update skillId (min (L + 1) 100) sk)\<rparr>))
     \<and> (\<not> u * 100 < progressChance L \<longrightarrow>
          processSkillProgression u ch skillId =
            Inr (\<lparr>leveledUp = False, newLevel = L, oldLevel = L\<rparr>, ch))
     \<and> (\<exists>r ch' sk'. processSkillProgression u ch skillId = Inr (r, ch') \<and> skills ch' = Some sk'
           \<and> skill_level sk' skillId = newLevel r \<and> oldLevel r = L
           \<and> L \<le> newLevel r \<and> newLevel r \<le> L + 1 \<and> newLevel r \<le> 100
           \<and> (leveledUp r \<and> L < 100 \<longrightarrow> newLevel r = L + 1))"
proof -
  have ne: "L + 10 \<noteq> 0" using assms(3) by simp
  have c1: "0 < progressChance L \<and> progressChance L \<le> 100"
    using progressChance_pos [OF assms(3)] .
  have c2: "\<forall>L'. L < L' \<and> L' \<le> 100 \<longrightarrow> progressChance L' < progressChance L"
    using progressChance_antimono [OF assms(3)] by blast
  show ?thesis
  proof (cases "u * 100 < progressChance L")
    case True
    then show ?thesis using assms ne c1 c2
      by (simp add: processSkillProgression_def progress_hit_def Let_def skill_level_update)
        (simp add: progressChance_def)
  next
    case False
    then show ?thesis using assms ne c1 c2
      by (simp add: processSkillProgression_def progress_hit_def Let_def)
        (simp add: progressChance_def)
  qed
qed


lemma calculateDefenseRoll_no_skills:
  "skills d = None \<Longrightarrow> calculateDefenseRoll ud d dm = calculateAttackRoll ud 0 dm"
  by (simp add: calculateDefenseRoll_def skill_level_def or_zero_def)

lemma calculateDefenseRoll_missing_skills:
  "skills d = Some m \<Longrightarrow> map_of m ''dodge'' = None \<Longrightarrow> map_of m ''shield_use'' = None
     \<Longrightarrow> map_of m ''parry'' = None \<Longrightarrow> calculateDefenseRoll ud d dm = calculateAttackRoll ud 0 dm"
  by (simp add: calculateDefenseRoll_def skill_level_def or_zero_def)

lemma index_or_zero_num:
  "key \<notin> set object_prototype_names \<Longrightarrow> index_or_zero obj key = Num (or_zero (map_of obj key))"
  by (simp add: index_or_zero_def or_zero_def split: option.splits)

lemma calculateAttackRoll_full_num:
  "calculateAttackRoll_full u (Num l) mods = roll_result_num (calculateAttackRoll u l mods)"
  by (simp add: calculateAttackRoll_full_def calculateAttackRoll_def roll_result_num_def Let_def)

lemma calculateDamage_full_num:
  "calculateDamage_full (Num l) (Num w) mods = Num (calculateDamage l w mods)"
  by (simp add: calculateDamage_full_def calculateDamage_def Let_def)

lemma getWeaponDamage_full_num:
  "(\<And>w. weaponId = Some w \<Longrightarrow> w \<notin> set object_prototype_names)
     \<Longrightarrow> getWeaponDamage_full weaponId = Num (getWeaponDamage weaponId)"
  by (cases weaponId) (simp_all add: getWeaponDamage_full_def getWeaponDamage_def index_or_zero_num)

lemma resolveAttack_full_num:
  assumes "skillId \<notin> set object_prototype_names"
    and "\<And>w. main_hand attacker = Some w \<Longrightarrow> w \<notin> set object_prototype_names"
  shows "resolveAttack_full ua ud attacker defender skillId am dm
           = (case resolveAttack ua ud attacker defender skillId am dm of
                Inl e \<Rightarrow> Inl e
              | Inr (r, a, d) \<Rightarrow> Inr (attack_result_num r, a, d))"
proof (cases "skills attacker")
  case None
  then show ?thesis by (simp add: resolveAttack_full_def resolveAttack_def)
next
  case (Some sk)
  have w: "getWeaponDamage_full (main_hand attacker) = Num (getWeaponDamage (main_hand attacker))"
    using assms(2) by (rule getWeaponDamage_full_num)
  have s: "index_or_zero sk skillId = Num (skill_level sk skillId)"
    using assms(1) by (simp add: index_or_zero_num skill_level_def)
  show ?thesis
    using Some
    by (simp add: resolveAttack_full_def resolveAttack_def w s calculateAttackRoll_full_num
        calculateDamage_full_num attack_result_num_def roll_result_num_def Let_def)
qed

lemma calculateAttackRoll_full_member:
  "full_total (calculateAttackRoll_full u Member mods) = NaN"
  by (simp add: calculateAttackRoll_full_def Let_def)

lemma calculateDamage_full_member:
  "calculateDamage_full (Num l) Member mods = NaN"
  by (simp add: calculateDamage_full_def Let_def)

text \<open>
  Claim C10, amended. For every attacker that has a skill map and every defender,
  \<^verbatim>\<open>resolveAttack\<close> returns a result breakdown, whatever the skill id and the weapon
  id: a skill id absent from the map and an unknown weapon id count as \<open>0\<close> when the id
  names no property inherited from \<^verbatim>\<open>Object.prototype\<close>; a missing equipment field and
  a missing main hand give weapon damage \<open>0\<close>; a defender without a skill map or without
  the three defensive skills defends at level \<open>0\<close>. (For an absent skill id that names
  an inherited property the level is that member and the attack does not hit; for such
  a weapon id the damage of a hit is \<^verbatim>\<open>NaN\<close>.)
\<close>

theorem resolveAttack_total_given_skill_map:
  assumes "skills attacker = Some sk"
  shows "\<exists>r. resolveAttack_full ua ud attacker defender skillId am dm = Inr (r, attacker, defender)
     \<and> (map_of sk skillId = None \<and> skillId \<notin> set object_prototype_names \<longrightarrow> full_skillLevel r = Num 0)
     \<and> (\<forall>l. map_of sk skillId = Some l \<longrightarrow> full_skillLevel r = Num l)
     \<and> (equipment attacker = None \<longrightarrow> getWeaponDamage_full (main_hand attacker) = Num 0)
     \<and> (\<forall>eq. equipment attacker = Some eq \<and> map_of eq ''main_hand'' = None
            \<longrightarrow> getWeaponDamage_full (main_hand attacker) = Num 0)
     \<and> (\<forall>eq w. equipment attacker = Some eq \<and> map_of eq ''main_hand'' = Some w
              \<and> map_of weaponStats w = None \<and> w \<notin> set object_prototype_names
            \<longrightarrow> getWeaponDamage_full (main_hand attacker) = Num 0)
     \<and> full_attackRoll r = calculateAttackRoll_full ua (full_skillLevel r) am
     \<and> full_hit r = js_ge_num (full_total (full_attackRoll r)) (total (full_defenseRoll r))
     \<and> (full_hit r \<longrightarrow> full_damage r
            = calculateDamage_full (full_skillLevel r) (getWeaponDamage_full (main_hand attacker))
                \<lparr>item = None, buffs = None, debuffs = None, ability = Some (or_zero (ability am)),
                 critical = (rollD20 ua = 20)\<rparr>
          \<and> full_actualDamage r = js_min_num (full_damage r) (current_hp defender))
     \<and> (\<not> full_hit r \<longrightarrow> full_damage r = Num 0 \<and> full_actualDamage r = Num 0)
     \<and> full_defenseRoll r = calculateDefenseRoll ud defender dm
     \<and> (skills defender = None \<longrightarrow> full_defenseRoll r = calculateAttackRoll ud 0 dm)
     \<and> (\<forall>m. skills defender = Some m \<and> map_of m ''dodge'' = None \<and> map_of m ''shield_use'' = None
              \<and> map_of m ''parry'' = None \<longrightarrow> full_defenseRoll r = calculateAttackRoll ud 0 dm)
     \<and> (map_of sk skillId = None \<and> skillId \<in> set object_prototype_names
            \<longrightarrow> full_skillLevel r = Member \<and> \<not> full_hit r)
     \<and> (\<forall>eq w. equipment attacker = Some eq \<and> map_of eq ''main_hand'' = Some w
              \<and> map_of weaponStats w = None \<and> w \<in> set object_prototype_names \<and> full_hit r
            \<longrightarrow> full_damage r = NaN \<and> full_actualDamage r = NaN)"
proof -
  have w: "(equipment attacker = None \<longrightarrow> getWeaponDamage_full (main_hand attacker) = Num 0)
     \<and> (\<forall>eq. equipment attacker = Some eq \<and> map_of eq ''main_hand'' = None
            \<longrightarrow> getWeaponDamage_full (main_hand attacker) = Num 0)
     \<and> (\<forall>eq w. equipment attacker = Some eq \<and> map_of eq ''main_hand'' = Some w
              \<and> map_of weaponStats w = None \<and> w \<notin> set object_prototype_names
            \<longrightarrow> getWeaponDamage_full (main_hand attacker) = Num 0)"
    by (simp add: getWeaponDamage_full_def main_hand_def index_or_zero_def)
  have wm: "\<forall>eq w. equipment attacker = Some eq \<and> map_of eq ''main_hand'' = Some w
              \<and> map_of weaponStats w = None \<and> w \<in> set object_prototype_names
            \<longrightarrow> getWeaponDamage_full (main_hand attacker) = Member"
    by (simp add: getWeaponDamage_full_def main_hand_def index_or_zero_def)
  have d: "(skills defender = None \<longrightarrow> calculateDefenseRoll ud defender dm = calculateAttackRoll ud 0 dm)
     \<and> (\<forall>m. skills defender = Some m \<and> map_of m ''dodge'' = None \<and> map_of m ''shield_use'' = None
              \<and> map_of m ''parry'' = None \<longrightarrow> calculateDefenseRoll ud defender dm = calculateAttackRoll ud 0 dm)"
    using calculateDefenseRoll_no_skills calculateDefenseRoll_missing_skills by blast
  let ?lvl = "index_or_zero sk skillId"
  let ?a = "calculateAttackRoll_full ua ?lvl am"
  let ?h = "js_ge_num (full_total ?a) (total (calculateDefenseRoll ud defender dm))"
  let ?dmg = "if ?h then calculateDamage_full ?lvl (getWeaponDamage_full (main_hand attacker))
                           \<lparr>item = None, buffs = None, debuffs = None,
                            ability = Some (or_zero (ability am)), critical = full_roll_critical ?a\<rparr>
              else Num 0"
  let ?r = "\<lparr>full_hit = ?h, full_attackRoll = ?a, full_defenseRoll = calculateDefenseRoll ud defender dm,
             full_damage = ?dmg,
             full_actualDamage = (if ?h then js_min_num ?dmg (current_hp defender) else Num 0),
             full_critical = full_roll_critical ?a, full_ar_fumble = full_fumble ?a,
             full_skillUsed = skillId, full_skillLevel = ?lvl\<rparr>"
  have run: "resolveAttack_full ua ud attacker defender skillId am dm = Inr (?r, attacker, defender)"
    using assms by (simp add: resolveAttack_full_def Let_def)
  have lv: "(map_of sk skillId = None \<and> skillId \<notin> set object_prototype_names \<longrightarrow> ?lvl = Num 0)
     \<and> (\<forall>l. map_of sk skillId = Some l \<longrightarrow> ?lvl = Num l)
     \<and> (map_of sk skillId = None \<and> skillId \<in> set object_prototype_names \<longrightarrow> ?lvl = Member)"
    by (simp add: index_or_zero_def)
  have crit: "full_roll_critical ?a = (rollD20 ua = 20)"
    by (simp add: calculateAttackRoll_full_def Let_def)
  have nohit: "?lvl = Member \<longrightarrow> \<not> ?h"
    by (simp add: calculateAttackRoll_full_member)
  have numlvl: "?h \<longrightarrow> (\<exists>l. ?lvl = Num l)"
    using nohit by (cases ?lvl) (simp_all add: calculateAttackRoll_full_def Let_def)
  have nan: "\<forall>eq w. equipment attacker = Some eq \<and> map_of eq ''main_hand'' = Some w
              \<and> map_of weaponStats w = None \<and> w \<in> set object_prototype_names \<and> ?h
            \<longrightarrow> ?dmg = NaN \<and> js_min_num ?dmg (current_hp defender) = NaN"
  proof (intro allI impI)
    fix eq w
    assume a: "equipment attacker = Some eq \<and> map_of eq ''main_hand'' = Some w
              \<and> map_of weaponStats w = None \<and> w \<in> set object_prototype_names \<and> ?h"
    then have m: "getWeaponDamage_full (main_hand attacker) = Member" using wm by blast
    from a numlvl obtain l where l: "?lvl = Num l" by blast
    from a have h: "?h" by blast
    have "?dmg = NaN" using h by (simp add: l m calculateDamage_full_member)
    then show "?dmg = NaN \<and> js_min_num ?dmg (current_hp defender) = NaN" by simp
  qed
  show ?thesis
    apply (rule exI [of _ ?r])
    using run w d lv crit nohit nan by simp
qed

text \<open>
  Claim C10 as stated fails: the read of \<^verbatim>\<open>attacker.skills[skillId]\<close> is not guarded,
  so an attacker object without a skill map makes \<^verbatim>\<open>resolveAttack\<close> throw; and the
  absent skill id \<^verbatim>\<open>constructor\<close> and the unknown weapon id \<^verbatim>\<open>toString\<close> do not
  count as \<open>0\<close>.
\<close>

theorem resolveAttack_not_total_counterexample:
  "resolveAttack_full 0 0 (hero\<lparr>skills := None\<rparr>) goblinEnemy ''swordsmanship'' no_modifiers no_modifiers
     = Inl TypeError
   \<and> map_of [(''swordsmanship'', 5::int), (''dodge'', 3)] ''constructor'' = None
   \<and> index_or_zero [(''swordsmanship'', 5), (''dodge'', 3)] ''constructor'' = Member
   \<and> map_of weaponStats ''toString'' = None
   \<and> getWeaponDamage_full (Some ''toString'') = Member"
  by (simp add: resolveAttack_full_def hero_def index_or_zero_def getWeaponDamage_full_def
      weaponStats_def object_prototype_names_def)

theorem resolveAttack_total_given_skill_map_witness:
  "skills (hero\<lparr>equipment := None\<rparr>) = Some [(''swordsmanship'', 5), (''dodge'', 3)]
   \<and> (\<exists>r. resolveAttack_full (19/20) 0 (hero\<lparr>equipment := None\<rparr>) (goblinEnemy\<lparr>skills := None\<rparr>) ''archery''
              no_modifiers no_modifiers = Inr (r, hero\<lparr>equipment := None\<rparr>, goblinEnemy\<lparr>skills := None\<rparr>)
        \<and> full_skillLevel r = Num 0 \<and> full_hit r \<and> full_damage r = Num 1
        \<and> full_defenseRoll r = calculateAttackRoll 0 0 no_modifiers)
   \<and> (\<exists>r. resolveAttack_full (19/20) 0 (hero\<lparr>equipment := None\<rparr>) (goblinEnemy\<lparr>skills := None\<rparr>) ''constructor''
              no_modifiers no_modifiers = Inr (r, hero\<lparr>equipment := None\<rparr>, goblinEnemy\<lparr>skills := None\<rparr>)
        \<and> full_skillLevel r = Member \<and> \<not> full_hit r)"
proof -
  let ?at = "hero\<lparr>equipment := None\<rparr>"
  let ?df = "goblinEnemy\<lparr>skills := None\<rparr>"
  have h: "skills ?at = Some [(''swordsmanship'', 5), (''dodge'', 3)]"
    by (simp add: hero_def)
  have m: "map_of [(''swordsmanship'', 5::int), (''dodge'', 3)] ''archery'' = None"
    "''archery'' \<notin> set object_prototype_names"
    "map_of [(''swordsmanship'', 5::int), (''dodge'', 3)] ''constructor'' = None"
    "''constructor'' \<in> set object_prototype_names"
    "equipment ?at = None" "skills ?df = None"
    by (simp_all add: object_prototype_names_def)
  note T1 = resolveAttack_total_given_skill_map [OF h, of "19/20" 0 ?df "''archery''" no_modifiers no_modifiers]
  note T2 = resolveAttack_total_given_skill_map [OF h, of "19/20" 0 ?df "''constructor''" no_modifiers no_modifiers]
  from T1 m obtain r1 where r1: "resolveAttack_full (19/20) 0 ?at ?df ''archery'' no_modifiers no_modifiers
        = Inr (r1, ?at, ?df)"
    and l1: "full_skillLevel r1 = Num 0"
    and d1: "full_defenseRoll r1 = calculateAttackRoll 0 0 no_modifiers"
    by blast
  from T2 m obtain r2 where r2: "resolveAttack_full (19/20) 0 ?at ?df ''constructor'' no_modifiers no_modifiers
        = Inr (r2, ?at, ?df)"
    and l2: "full_skillLevel r2 = Member \<and> \<not> full_hit r2"
    by blast
  from r1 have e1: "full_hit r1 \<and> full_damage r1 = Num 1"
    by (auto simp add: resolveAttack_full_def Let_def hero_def goblinEnemy_def calculateAttackRoll_full_def
        calculateAttackRoll_def calculateDefenseRoll_def calculateDamage_full_def skill_level_def
        or_zero_def getWeaponDamage_full_def main_hand_def rollD20_def no_modifiers_def
        index_or_zero_def object_prototype_names_def)
  from h r1 l1 d1 e1 r2 l2 show ?thesis by blast
qed

theorem resolveAttack_hit_and_clamp_witness:
  "skills hero = Some [(''swordsmanship'', 5), (''dodge'', 3)]
   \<and> (\<exists>r. resolveAttack (19/20) 0 hero goblinEnemy ''swordsmanship'' no_modifiers no_modifiers
              = Inr (r, hero, goblinEnemy)
        \<and> total (attackRoll r) = 25 \<and> total (defenseRoll r) = 4 \<and> hit r
        \<and> damage r = 4 \<and> actualDamage r = 4 \<and> actualDamage r \<le> current_hp goblinEnemy)"
proof -
  have h: "skills hero = Some [(''swordsmanship'', 5), (''dodge'', 3)]"
    by (simp add: hero_def)
  note T = resolveAttack_hit_and_clamp
    [of "19/20" 0 hero goblinEnemy "''swordsmanship''" no_modifiers no_modifiers]
  from T h obtain r where r: "resolveAttack (19/20) 0 hero goblinEnemy ''swordsmanship'' no_modifiers no_modifiers
              = Inr (r, hero, goblinEnemy)"
    by blast
  with T have c: "hit r \<longrightarrow> actualDamage r \<le> current_hp goblinEnemy"
    by blast
  from r have "total (attackRoll r) = 25 \<and> total (defenseRoll r) = 4 \<and> hit r \<and> damage r = 4 \<and> actualDamage r = 4"
    by (auto simp add: resolveAttack_def Let_def hero_def goblinEnemy_def calculateAttackRoll_def
        calculateDefenseRoll_def calculateDamage_def skill_level_def or_zero_def getWeaponDamage_def
        main_hand_def rollD20_def no_modifiers_def weaponStats_def)
  with h r c show ?thesis by blast
qed

theorem applyDamage_applyHealing_invariant_witness:
  "(0::int) \<le> 7 \<and> (0::int) \<le> 0 \<and> 0 \<le> current_hp (hero\<lparr>current_hp := 5\<rparr>)
   \<and> current_hp (hero\<lparr>current_hp := 5\<rparr>)
        \<le> calculateMaxHP (calculateTotalLevel (skills (hero\<lparr>current_hp := 5\<rparr>)))
   \<and> current_hp (snd (applyDamage (hero\<lparr>current_hp := 5\<rparr>) 7)) = 0
   \<and> status (snd (applyDamage (hero\<lparr>current_hp := 5\<rparr>) 7)) = Some KnockedOut
   \<and> status (snd (applyDamage (snd (applyDamage (hero\<lparr>current_hp := 5\<rparr>) 7)) 0)) = Some Dead
   \<and> current_hp (snd (applyHealing (hero\<lparr>current_hp := 5\<rparr>) 7)) = 12
   \<and> status (snd (applyHealing (hero\<lparr>current_hp := 5\<rparr>) 7)) = Some Active"
proof -
  have h1: "(0::int) \<le> 7" and h2: "(0::int) \<le> 0" by simp_all
  have h3: "0 \<le> current_hp (hero\<lparr>current_hp := 5\<rparr>)" by simp
  have h4: "current_hp (hero\<lparr>current_hp := 5\<rparr>)
        \<le> calculateMaxHP (calculateTotalLevel (skills (hero\<lparr>current_hp := 5\<rparr>)))"
    by (simp add: hero_def calculateMaxHP_def calculateTotalLevel_def)
  have s: "status (hero\<lparr>current_hp := 5\<rparr>) = Some Active"
    and m: "calculateMaxHP (calculateTotalLevel (skills (hero\<lparr>current_hp := 5\<rparr>))) = 20"
    by (simp_all add: hero_def calculateMaxHP_def calculateTotalLevel_def)
  show ?thesis
    using applyDamage_applyHealing_invariant [OF h1 h2 h3 h4] h1 h2 h3 h4 s m by simp
qed

theorem processSkillProgression_chance_witness:
  "skills hero = Some [(''swordsmanship'', 5), (''dodge'', 3)]
   \<and> skill_level [(''swordsmanship'', 5), (''dodge'', 3)] ''swordsmanship'' = 5
   \<and> (0::int) \<le> 5 \<and> (5::int) \<le> 100
   \<and> progressChance 5 = 100 / 15
   \<and> processSkillProgression (1/20) hero ''swordsmanship'' =
        Inr (\<lparr>leveledUp = True, newLevel = 6, oldLevel = 5\<rparr>,
             hero\<lparr>skills := Some [(''swordsmanship'', 6), (''dodge'', 3)]\<rparr>)
   \<and> processSkillProgression (1/2) hero ''swordsmanship'' =
        Inr (\<lparr>leveledUp = False, newLevel = 5, oldLevel = 5\<rparr>, hero)"
proof -
  have h1: "skills hero = Some [(''swordsmanship'', 5), (''dodge'', 3)]" by (simp add: hero_def)
  have h2: "skill_level [(''swordsmanship'', 5), (''dodge'', 3)] ''swordsmanship'' = 5"
    by (simp add: skill_level_def or_zero_def)
  have h3: "(0::int) \<le> 5" and h4: "(5::int) \<le> 100" by simp_all
  have a: "(1/20) * 100 < progressChance 5" and b: "\<not> (1/2) * 100 < progressChance 5"
    by (simp_all add: progressChance_def)
  show ?thesis
    using processSkillProgression_chance [OF h1 h2 h3 h4, of "1/20"]
      processSkillProgression_chance [OF h1 h2 h3 h4, of "1/2"] h1 h2 a b
    by simp
qed



section \<open>Properties of the store and of the command loop\<close>

lemma map_update_first: "(\<And>x. g (f x) = g x) \<Longrightarrow> map g (update_first P f xs) = map g xs"
  by (induction xs) simp_all

lemma find_update_first:
  "(\<And>x. P x \<Longrightarrow> P (f x)) \<Longrightarrow> find P (update_first P f xs) = map_option f (find P xs)"
  by (induction xs) simp_all

lemma find_Some_holds: "find P xs = Some x \<Longrightarrow> P x"
  by (induction xs) (auto split: if_splits)

lemma updateCharacter_frame:
  "game_instances (updateCharacter st i f) = game_instances st"
  "dungeons (updateCharacter st i f) = dungeons st"
  "commands (updateCharacter st i f) = commands st"
  by (simp_all add: updateCharacter_def)

lemma updateCommand_frame:
  "game_instances (updateCommand st i r) = game_instances st"
  "dungeons (updateCommand st i r) = dungeons st"
  "characters_table (updateCommand st i r) = characters_table st"
  by (simp_all add: updateCommand_def)

lemma processAttackCommand_instances:
  "processAttackCommand d st ch p gi = Inr (r, st') \<Longrightarrow> game_instances st' = game_instances st"
  by (auto simp add: processAttackCommand_def Let_def updateCharacter_frame split: option.splits if_splits)

lemma processMoveCommand_instances:
  "processMoveCommand d st ch p gi = Inr (r, st') \<Longrightarrow> game_instances st' = game_instances st"
  by (auto simp add: processMoveCommand_def Let_def updateCharacter_frame)

lemma processSkillCommand_instances:
  "processSkillCommand d st ch p gi = Inr (r, st') \<Longrightarrow> game_instances st' = game_instances st"
  by (auto simp add: processSkillCommand_def Let_def updateCharacter_frame split: option.splits if_splits)

lemma processItemCommand_instances:
  "processItemCommand st ch p gi = Inr (r, st') \<Longrightarrow> game_instances st' = game_instances st"
  by (auto simp add: processItemCommand_def Let_def updateCharacter_frame split: if_splits)

lemma processInteractCommand_instances:
  "processInteractCommand st ch p gi = Inr (r, st') \<Longrightarrow> game_instances st' = game_instances st"
  by (auto simp add: processInteractCommand_def)

lemma processCommand_instances:
  assumes "processCommand d st c gi = Inr (r, st')"
  shows "game_instances st' = game_instances st"
proof -
  obtain ch where ch: "getCharacter st (cmd_character_id c) = Some ch"
    using assms by (auto simp add: processCommand_def split: option.splits)
  show ?thesis
  proof (cases "intent (parseCommandFallback (raw_input c))")
    case IAttack
    then show ?thesis using assms ch
      by (auto simp add: processCommand_def Let_def split: sum.splits dest: processAttackCommand_instances)
  next
    case IMove
    then show ?thesis using assms ch
      by (auto simp add: processCommand_def Let_def split: sum.splits dest: processMoveCommand_instances)
  next
    case IUseSkill
    then show ?thesis using assms ch
      by (auto simp add: processCommand_def Let_def split: sum.splits dest: processSkillCommand_instances)
  next
    case IUseItem
    then show ?thesis using assms ch
      by (auto simp add: processCommand_def Let_def split: sum.splits dest: processItemCommand_instances)
  next
    case IInteract
    then show ?thesis using assms ch
      by (auto simp add: processCommand_def Let_def split: sum.splits dest: processInteractCommand_instances)
  next
    case IUnknown
    then show ?thesis using assms ch
      by (auto simp add: processCommand_def Let_def split: sum.splits)
  qed
qed

lemma processCommand_character_id:
  assumes "processCommand d st c gi = Inr (r, st')"
  shows "res_character_id r = Some (cmd_character_id c)"
proof -
  obtain ch where ch: "getCharacter st (cmd_character_id c) = Some ch"
    using assms by (auto simp add: processCommand_def split: option.splits)
  then have "character_id ch = cmd_character_id c"
    unfolding getCharacter_def by (rule find_Some_holds)
  then show ?thesis using assms ch
    by (auto simp add: processCommand_def Let_def split: sum.splits)
qed

lemma process_commands_instances:
  "game_instances (snd (process_commands rnd gi cmds st)) = game_instances st"
proof (induction cmds arbitrary: rnd st)
  case Nil
  then show ?case by simp
next
  case (Cons c cs)
  show ?case
  proof (cases "processCommand (rnd 0) st c gi")
    case (Inl e)
    then show ?thesis using Cons.IH by (simp add: Let_def)
  next
    case (Inr p)
    obtain r st1 where p: "p = (r, st1)" by (cases p)
    with Inr have "game_instances st1 = game_instances st"
      using processCommand_instances by blast
    then show ?thesis using Inr p Cons.IH by (simp add: Let_def updateCommand_frame)
  qed
qed

lemma process_commands_length:
  "length (fst (process_commands rnd gi cmds st)) = length cmds"
  by (induction cmds arbitrary: rnd st) (auto simp add: Let_def split: sum.splits)

lemma process_commands_character_ids:
  "map res_character_id (fst (process_commands rnd gi cmds st)) = map (\<lambda>c. Some (cmd_character_id c)) cmds"
proof (induction cmds arbitrary: rnd st)
  case Nil
  then show ?case by simp
next
  case (Cons c cs)
  show ?case
  proof (cases "processCommand (rnd 0) st c gi")
    case (Inl e)
    then show ?thesis using Cons.IH by (simp add: Let_def command_failure_def empty_result_def)
  next
    case (Inr p)
    obtain r st1 where p: "p = (r, st1)" by (cases p)
    with Inr have "res_character_id r = Some (cmd_character_id c)"
      using processCommand_character_id by blast
    then show ?thesis using Inr p Cons.IH by (simp add: Let_def)
  qed
qed

lemma process_commands_append:
  "process_commands rnd gi (xs @ ys) st =
     (fst (process_commands rnd gi xs st)
        @ fst (process_commands (\<lambda>k. rnd (k + length xs)) gi ys (snd (process_commands rnd gi xs st))),
      snd (process_commands (\<lambda>k. rnd (k + length xs)) gi ys (snd (process_commands rnd gi xs st))))"
  by (induction xs arbitrary: rnd st) (auto simp add: Let_def split: sum.splits)

lemma getGameInstance_after_commit:
  assumes "getGameInstance st i = Some g"
  shows "getGameInstance (updateGameInstance st i (\<lambda>g. g\<lparr>current_tick := n, last_activity := t\<rparr>)) i
           = Some (g\<lparr>current_tick := n, last_activity := t\<rparr>)"
  using assms by (simp add: getGameInstance_def updateGameInstance_def find_update_first)


section \<open>Properties of the tick\<close>

text \<open>
  Claim C2. For an active instance whose commands for the current tick are fewer than
  its participating characters, the tick function called without \<open>force\<close> returns the
  waiting outcome with the submitted and the expected count, and the store it leaves is
  the store it found: the current tick, every character and everything else are unchanged.
\<close>

theorem processGameTick_waiting_no_mutation:
  assumes "getGameInstance st instanceId = Some gi" and "game_state gi = GameActive"
    and "length (getTickCommands st instanceId (current_tick gi)) < length (characters gi)"
  shows "processGameTick now rnd st instanceId False =
           (Waiting (length (getTickCommands st instanceId (current_tick gi))) (length (characters gi)), st)"
  using assms by (simp add: processGameTick_def tick_observe_def Let_def)

theorem processGameTick_waiting_no_mutation_witness:
  "getGameInstance (store0\<lparr>commands := []\<rparr>) 1 = Some instance0 \<and> game_state instance0 = GameActive
   \<and> length (getTickCommands (store0\<lparr>commands := []\<rparr>) 1 (current_tick instance0)) < length (characters instance0)
   \<and> processGameTick ''t1'' rnd0 (store0\<lparr>commands := []\<rparr>) 1 False = (Waiting 0 1, store0\<lparr>commands := []\<rparr>)"
proof -
  have h1: "getGameInstance (store0\<lparr>commands := []\<rparr>) 1 = Some instance0"
    by (simp add: getGameInstance_def store0_def instance0_def)
  have h2: "game_state instance0 = GameActive" by (simp add: instance0_def)
  have h3: "length (getTickCommands (store0\<lparr>commands := []\<rparr>) 1 (current_tick instance0)) < length (characters instance0)"
    by (simp add: getTickCommands_def instance0_def)
  have c: "length (getTickCommands (store0\<lparr>commands := []\<rparr>) 1 (current_tick instance0)) = 0"
    "length (characters instance0) = 1"
    by (simp_all add: getTickCommands_def instance0_def)
  show ?thesis
    using processGameTick_waiting_no_mutation [OF h1 h2 h3, of "''t1''" rnd0] h1 h2 h3 c by simp
qed

lemma process_commands_snoc:
  "process_commands rnd gi (xs @ [c]) st =
     (case processCommand (rnd (length xs)) (snd (process_commands rnd gi xs st)) c gi of
        Inl e \<Rightarrow> (fst (process_commands rnd gi xs st) @ [command_failure c e],
                  snd (process_commands rnd gi xs st))
      | Inr (r, s) \<Rightarrow> (fst (process_commands rnd gi xs st) @ [r], updateCommand s (command_id c) r))"
  by (simp add: process_commands_append Let_def split: sum.splits)

lemma process_commands_nth_take:
  assumes "k < length cmds"
  shows "fst (process_commands rnd gi cmds st) ! k
           = fst (process_commands rnd gi (take (Suc k) cmds) st) ! k"
proof -
  have "fst (process_commands rnd gi (take (Suc k) cmds @ drop (Suc k) cmds) st) ! k
          = fst (process_commands rnd gi (take (Suc k) cmds) st) ! k"
    using assms by (simp only: process_commands_append fst_conv nth_append process_commands_length) simp
  then show ?thesis by simp
qed

lemma process_commands_step_failure:
  assumes "k < length cmds"
    and "processCommand (rnd k) (snd (process_commands rnd gi (take k cmds) st)) (cmds ! k) gi = Inl e"
  shows "fst (process_commands rnd gi cmds st) ! k = command_failure (cmds ! k) e"
    and "snd (process_commands rnd gi (take (Suc k) cmds) st) = snd (process_commands rnd gi (take k cmds) st)"
proof -
  have t: "take (Suc k) cmds = take k cmds @ [cmds ! k]"
    using assms(1) by (rule take_Suc_conv_app_nth)
  have l: "length (take k cmds) = k" using assms(1) by simp
  have s: "process_commands rnd gi (take k cmds @ [cmds ! k]) st
      = (fst (process_commands rnd gi (take k cmds) st) @ [command_failure (cmds ! k) e],
         snd (process_commands rnd gi (take k cmds) st))"
    using assms by (simp add: process_commands_snoc min_def)
  have n: "length (fst (process_commands rnd gi (take k cmds) st)) = k"
    using assms(1) by (simp add: process_commands_length)
  show "fst (process_commands rnd gi cmds st) ! k = command_failure (cmds ! k) e"
    using process_commands_nth_take [OF assms(1), of rnd gi st] by (simp add: t s nth_append n)
  show "snd (process_commands rnd gi (take (Suc k) cmds) st) = snd (process_commands rnd gi (take k cmds) st)"
    by (simp add: t s)
qed

lemma process_commands_step_success:
  assumes "k < length cmds"
    and "processCommand (rnd k) (snd (process_commands rnd gi (take k cmds) st)) (cmds ! k) gi = Inr (r, s)"
  shows "fst (process_commands rnd gi cmds st) ! k = r"
    and "snd (process_commands rnd gi (take (Suc k) cmds) st) = updateCommand s (command_id (cmds ! k)) r"
proof -
  have t: "take (Suc k) cmds = take k cmds @ [cmds ! k]"
    using assms(1) by (rule take_Suc_conv_app_nth)
  have l: "length (take k cmds) = k" using assms(1) by simp
  have e: "process_commands rnd gi (take k cmds @ [cmds ! k]) st
      = (fst (process_commands rnd gi (take k cmds) st) @ [r], updateCommand s (command_id (cmds ! k)) r)"
    using assms by (simp add: process_commands_snoc min_def)
  have n: "length (fst (process_commands rnd gi (take k cmds) st)) = k"
    using assms(1) by (simp add: process_commands_length)
  show "fst (process_commands rnd gi cmds st) ! k = r"
    using process_commands_nth_take [OF assms(1), of rnd gi st] by (simp add: t e nth_append n)
  show "snd (process_commands rnd gi (take (Suc k) cmds) st) = updateCommand s (command_id (cmds ! k)) r"
    by (simp add: t e)
qed

text \<open>
  Claim C6. When a tick is processed, every command is handled on the store that the
  commands before it have left, whether or not one of those threw: a command whose
  handling throws yields the failed result that carries its character and the error and
  leaves the store as it was; a command whose handling returns yields that result, and
  the next command sees its writes and the result stored with the command. Every
  command has exactly one result, attributed to its character, and the tick ends with
  the write of the tick read plus \<open>1\<close> on the store that the last command left.
\<close>

theorem processGameTick_isolates_command_failure:
  assumes "getGameInstance st instanceId = Some gi" and "game_state gi = GameActive"
    and "force \<or> length (characters gi) \<le> length (getTickCommands st instanceId (current_tick gi))"
  shows "\<exists>results stores st'.
           processGameTick now rnd st instanceId force
             = (Processed instanceId (current_tick gi) results (current_tick gi + 1)
                  (checkRoomCompletion gi results), st')
         \<and> length results = length (getTickCommands st instanceId (current_tick gi))
         \<and> map res_character_id results
             = map (\<lambda>c. Some (cmd_character_id c)) (getTickCommands st instanceId (current_tick gi))
         \<and> length stores = Suc (length (getTickCommands st instanceId (current_tick gi)))
         \<and> stores ! 0 = st
         \<and> (\<forall>k < length (getTickCommands st instanceId (current_tick gi)).
               (\<forall>e. processCommand (rnd k) (stores ! k)
                       (getTickCommands st instanceId (current_tick gi) ! k) gi = Inl e
                  \<longrightarrow> results ! k = command_failure (getTickCommands st instanceId (current_tick gi) ! k) e
                      \<and> \<not> success (results ! k)
                      \<and> res_character_id (results ! k)
                          = Some (cmd_character_id (getTickCommands st instanceId (current_tick gi) ! k))
                      \<and> res_error (results ! k) = Some e
                      \<and> stores ! Suc k = stores ! k)
             \<and> (\<forall>r s. processCommand (rnd k) (stores ! k)
                         (getTickCommands st instanceId (current_tick gi) ! k) gi = Inr (r, s)
                  \<longrightarrow> results ! k = r
                      \<and> stores ! Suc k
                          = updateCommand s (command_id (getTickCommands st instanceId (current_tick gi) ! k)) r))
         \<and> st' = updateGameInstance (stores ! length (getTickCommands st instanceId (current_tick gi)))
                    instanceId (\<lambda>g. g\<lparr>current_tick := current_tick gi + 1, last_activity := now\<rparr>)
         \<and> (\<exists>g'. getGameInstance st' instanceId = Some g' \<and> current_tick g' = current_tick gi + 1)"
proof -
  let ?cmds = "getTickCommands st instanceId (current_tick gi)"
  let ?p = "process_commands rnd gi ?cmds st"
  let ?S = "\<lambda>k. snd (process_commands rnd gi (take k ?cmds) st)"
  let ?stores = "map ?S [0..<Suc (length ?cmds)]"
  let ?st' = "updateGameInstance (snd ?p) instanceId
                (\<lambda>g. g\<lparr>current_tick := current_tick gi + 1, last_activity := now\<rparr>)"
  have obs: "tick_observe st instanceId force = Ready gi ?cmds"
    using assms by (auto simp add: tick_observe_def Let_def)
  have run: "processGameTick now rnd st instanceId force
      = (Processed instanceId (current_tick gi) (fst ?p) (current_tick gi + 1)
           (checkRoomCompletion gi (fst ?p)), ?st')"
    by (simp add: processGameTick_def obs tick_resolve_commit_def Let_def)
  have len: "length (fst ?p) = length ?cmds"
    by (rule process_commands_length)
  have ids: "map res_character_id (fst ?p) = map (\<lambda>c. Some (cmd_character_id c)) ?cmds"
    by (rule process_commands_character_ids)
  have slen: "length ?stores = Suc (length ?cmds)" by simp
  have s0: "?stores ! 0 = st" by (simp add: nth_map_upt del: upt_Suc)
  have sk: "\<And>k. k \<le> length ?cmds \<Longrightarrow> ?stores ! k = ?S k"
    by (simp add: nth_map_upt del: upt_Suc)
  have slast: "?stores ! length ?cmds = snd ?p"
    using sk [of "length ?cmds"] by simp
  have steps: "\<forall>k < length ?cmds.
       (\<forall>e. processCommand (rnd k) (?stores ! k) (?cmds ! k) gi = Inl e
          \<longrightarrow> fst ?p ! k = command_failure (?cmds ! k) e
              \<and> \<not> success (fst ?p ! k)
              \<and> res_character_id (fst ?p ! k) = Some (cmd_character_id (?cmds ! k))
              \<and> res_error (fst ?p ! k) = Some e
              \<and> ?stores ! Suc k = ?stores ! k)
     \<and> (\<forall>r s. processCommand (rnd k) (?stores ! k) (?cmds ! k) gi = Inr (r, s)
          \<longrightarrow> fst ?p ! k = r
              \<and> ?stores ! Suc k = updateCommand s (command_id (?cmds ! k)) r)"
  proof (intro allI impI conjI)
    fix k e
    assume k: "k < length ?cmds"
      and f: "processCommand (rnd k) (?stores ! k) (?cmds ! k) gi = Inl e"
    from k have a: "?stores ! k = ?S k" and b: "?stores ! Suc k = ?S (Suc k)"
      using sk [of k] sk [of "Suc k"] by simp_all
    from f a have f': "processCommand (rnd k) (?S k) (?cmds ! k) gi = Inl e" by simp
    show r: "fst ?p ! k = command_failure (?cmds ! k) e"
      using process_commands_step_failure(1) [OF k f'] .
    show "\<not> success (fst ?p ! k)"
      and "res_character_id (fst ?p ! k) = Some (cmd_character_id (?cmds ! k))"
      and "res_error (fst ?p ! k) = Some e"
      by (simp_all add: r command_failure_def empty_result_def)
    show "?stores ! Suc k = ?stores ! k"
      using process_commands_step_failure(2) [OF k f'] a b by simp
  next
    fix k r s
    assume k: "k < length ?cmds"
      and f: "processCommand (rnd k) (?stores ! k) (?cmds ! k) gi = Inr (r, s)"
    from k have a: "?stores ! k = ?S k" and b: "?stores ! Suc k = ?S (Suc k)"
      using sk [of k] sk [of "Suc k"] by simp_all
    from f a have f': "processCommand (rnd k) (?S k) (?cmds ! k) gi = Inr (r, s)" by simp
    show "fst ?p ! k = r"
      using process_commands_step_success(1) [OF k f'] .
    show "?stores ! Suc k = updateCommand s (command_id (?cmds ! k)) r"
      using process_commands_step_success(2) [OF k f'] b by simp
  qed
  have "getGameInstance (snd ?p) instanceId = Some gi"
    using assms(1) by (simp add: getGameInstance_def process_commands_instances)
  then have tick: "getGameInstance ?st' instanceId
      = Some (gi\<lparr>current_tick := current_tick gi + 1, last_activity := now\<rparr>)"
    by (rule getGameInstance_after_commit)
  have "current_tick (gi\<lparr>current_tick := current_tick gi + 1, last_activity := now\<rparr>) = current_tick gi + 1"
    by simp
  with tick have tick': "\<exists>g'. getGameInstance ?st' instanceId = Some g' \<and> current_tick g' = current_tick gi + 1"
    by blast
  have commit: "?st' = updateGameInstance (?stores ! length ?cmds) instanceId
                    (\<lambda>g. g\<lparr>current_tick := current_tick gi + 1, last_activity := now\<rparr>)"
    using slast by simp
  show ?thesis
    apply (rule exI [of _ "fst ?p"])
    apply (rule exI [of _ ?stores])
    apply (rule exI [of _ ?st'])
    using run len ids slen s0 steps commit tick' by blast
qed

lemmas tick_eval_defs =
  processGameTick_def tick_observe_def tick_resolve_commit_def
  getGameInstance_def getTickCommands_def getCharacter_def getDungeon_def
  updateCharacter_def updateCommand_def updateGameInstance_def
  processCommand_def processAttackCommand_def processItemCommand_def
  parseCommandFallback_def some_in_def to_lower_char_def is_space_def skill_or_def
  command_failure_def checkRoomCompletion_def empty_result_def
  skill_level_def or_zero_def rollD20_def progress_hit_def progressChance_def
  store0_def instance0_def command0_def command_stray_def hero_def goblinEnemy_def
  draws0_def rnd0_def attack0_def Let_def

theorem processGameTick_isolates_command_failure_witness:
  "getGameInstance store_wounded 1 = Some instance0
   \<and> game_state instance0 = GameActive
   \<and> (False \<or> length (characters instance0)
         \<le> length (getTickCommands store_wounded 1 (current_tick instance0)))
   \<and> (\<exists>results st'.
         processGameTick ''t1'' rnd0 store_wounded 1 False
           = (Processed 1 1 results 2 (checkRoomCompletion instance0 results), st')
       \<and> results = [command_failure command_stray CharacterNotFound, potion0]
       \<and> st' = store0\<lparr>game_instances := [instance0\<lparr>current_tick := 2, last_activity := ''t1''\<rparr>],
                       commands := [command_stray, command_potion\<lparr>cmd_result := Some potion0\<rparr>],
                       characters_table := [hero\<lparr>current_hp := 20, inventory := []\<rparr>]\<rparr>
       \<and> (\<exists>g'. getGameInstance st' 1 = Some g' \<and> current_tick g' = 2))"
proof -
  have h1: "getGameInstance store_wounded 1 = Some instance0"
    by (simp add: store_wounded_def getGameInstance_def store0_def instance0_def)
  have h2: "game_state instance0 = GameActive" by (simp add: instance0_def)
  have cmds: "getTickCommands store_wounded 1 (current_tick instance0) = [command_stray, command_potion]"
    by (simp add: store_wounded_def getTickCommands_def instance0_def command_potion_def command_stray_def)
  have h3: "False \<or> length (characters instance0) \<le> length (getTickCommands store_wounded 1 (current_tick instance0))"
    unfolding cmds by (simp add: instance0_def)
  have t: "current_tick instance0 = 1" by (simp add: instance0_def)
  obtain results st' where
    run: "processGameTick ''t1'' rnd0 store_wounded 1 False
            = (Processed 1 (current_tick instance0) results (current_tick instance0 + 1)
                 (checkRoomCompletion instance0 results), st')"
    and tick: "\<exists>g'. getGameInstance st' 1 = Some g' \<and> current_tick g' = current_tick instance0 + 1"
    using processGameTick_isolates_command_failure [OF h1 h2 h3, of "''t1''" rnd0] by blast
  have "processGameTick ''t1'' rnd0 store_wounded 1 False
          = (Processed 1 1 [command_failure command_stray CharacterNotFound, potion0] 2
              \<lparr>completed = False, advance = False, reason = ''Combat ongoing''\<rparr>,
             store0\<lparr>game_instances := [instance0\<lparr>current_tick := 2, last_activity := ''t1''\<rparr>],
                    commands := [command_stray, command_potion\<lparr>cmd_result := Some potion0\<rparr>],
                    characters_table := [hero\<lparr>current_hp := 20, inventory := []\<rparr>]\<rparr>)"
    by (simp add: store_wounded_def command_potion_def potion0_def tick_eval_defs)
  with run have "results = [command_failure command_stray CharacterNotFound, potion0]
      \<and> st' = store0\<lparr>game_instances := [instance0\<lparr>current_tick := 2, last_activity := ''t1''\<rparr>],
                      commands := [command_stray, command_potion\<lparr>cmd_result := Some potion0\<rparr>],
                      characters_table := [hero\<lparr>current_hp := 20, inventory := []\<rparr>]\<rparr>"
    by simp
  with h1 h2 h3 run tick t show ?thesis by simp
qed

section \<open>Two invocations for one instance\<close>

lemma tick_resolve_commit_outcome:
  "fst (tick_resolve_commit now rnd gi cmds st instanceId)
     = Processed instanceId (current_tick gi) (fst (process_commands rnd gi cmds st))
         (current_tick gi + 1) (checkRoomCompletion gi (fst (process_commands rnd gi cmds st)))"
  by (simp add: tick_resolve_commit_def Let_def)

lemma tick_resolve_commit_stored_tick:
  assumes "getGameInstance st instanceId = Some g"
  shows "getGameInstance (snd (tick_resolve_commit now rnd gi cmds st instanceId)) instanceId
           = Some (g\<lparr>current_tick := current_tick gi + 1, last_activity := now\<rparr>)"
proof -
  have "getGameInstance (snd (process_commands rnd gi cmds st)) instanceId = Some g"
    using assms by (simp add: getGameInstance_def process_commands_instances)
  then show ?thesis
    by (simp add: tick_resolve_commit_def Let_def getGameInstance_after_commit)
qed

text \<open>
  Claim C1, amended. The write of the next tick is unconditional: it stores the tick
  that the invocation read plus \<open>1\<close> whatever the stored tick is by then. When two
  invocations have both read tick \<open>N\<close> before either runs its loop, both report success
  for tick \<open>N\<close> with a result for every command, and the stored tick ends at \<open>N + 1\<close>.
\<close>

theorem two_ticks_both_commit:
  assumes "tick_observe st instanceId force = Ready gi cmds"
  shows "\<exists>resultsA resultsB st' g'.
           two_ticks_interleaved now rndA rndB st instanceId force
             = Some (Processed instanceId (current_tick gi) resultsA (current_tick gi + 1)
                       (checkRoomCompletion gi resultsA),
                     Processed instanceId (current_tick gi) resultsB (current_tick gi + 1)
                       (checkRoomCompletion gi resultsB),
                     st')
         \<and> length resultsA = length cmds \<and> length resultsB = length cmds
         \<and> getGameInstance st' instanceId = Some g' \<and> current_tick g' = current_tick gi + 1"
proof -
  let ?a = "tick_resolve_commit now rndA gi cmds st instanceId"
  let ?b = "tick_resolve_commit now rndB gi cmds (snd ?a) instanceId"
  have two: "two_ticks_interleaved now rndA rndB st instanceId force = Some (fst ?a, fst ?b, snd ?b)"
    using assms by (simp add: two_ticks_interleaved_def Let_def)
  have found: "getGameInstance st instanceId = Some gi"
    using assms by (auto simp add: tick_observe_def Let_def split: option.splits if_splits)
  have sa: "getGameInstance (snd ?a) instanceId
              = Some (gi\<lparr>current_tick := current_tick gi + 1, last_activity := now\<rparr>)"
    using found by (rule tick_resolve_commit_stored_tick)
  have sb: "getGameInstance (snd ?b) instanceId
              = Some (gi\<lparr>current_tick := current_tick gi + 1, last_activity := now\<rparr>)"
    using tick_resolve_commit_stored_tick [OF sa, of now rndB gi cmds] by simp
  have tk: "current_tick (gi\<lparr>current_tick := current_tick gi + 1, last_activity := now\<rparr>) = current_tick gi + 1"
    by simp
  have la: "length (fst (process_commands rndA gi cmds st)) = length cmds"
    and lb: "length (fst (process_commands rndB gi cmds (snd ?a))) = length cmds"
    by (rule process_commands_length)+
  show ?thesis
    using two sb tk la lb
    unfolding tick_resolve_commit_outcome [of now rndA gi cmds st instanceId]
      tick_resolve_commit_outcome [of now rndB gi cmds "snd ?a" instanceId]
    by blast
qed

text \<open>
  Claim C1 as stated fails: there is no compare-and-set. Two invocations that both read
  tick \<open>1\<close> both succeed and both emit the result of the same command.
\<close>

theorem two_ticks_both_commit_counterexample:
  "two_ticks_interleaved ''t1'' rnd0 rnd0 store0 1 False
     = Some (Processed 1 1 [attack0] 2 \<lparr>completed = False, advance = False, reason = ''Combat ongoing''\<rparr>,
             Processed 1 1 [attack0] 2 \<lparr>completed = False, advance = False, reason = ''Combat ongoing''\<rparr>,
             store0\<lparr>game_instances := [instance0\<lparr>current_tick := 2, last_activity := ''t1''\<rparr>],
                    commands := [command0\<lparr>cmd_result := Some attack0\<rparr>]\<rparr>)"
  by (simp add: two_ticks_interleaved_def tick_eval_defs)

theorem two_ticks_both_commit_witness:
  "tick_observe store0 1 False = Ready instance0 [command0]
   \<and> (\<exists>resultsA resultsB st' g'.
         two_ticks_interleaved ''t1'' rnd0 rnd0 store0 1 False
           = Some (Processed 1 1 resultsA 2 (checkRoomCompletion instance0 resultsA),
                   Processed 1 1 resultsB 2 (checkRoomCompletion instance0 resultsB), st')
       \<and> length resultsA = 1 \<and> length resultsB = 1
       \<and> getGameInstance st' 1 = Some g' \<and> current_tick g' = 2)"
proof -
  have h: "tick_observe store0 1 False = Ready instance0 [command0]"
    by (simp add: tick_observe_def getGameInstance_def getTickCommands_def store0_def instance0_def
        command0_def Let_def)
  have t: "current_tick instance0 = 1" "current_tick instance0 + 1 = 2" "length [command0] = 1"
    by (simp_all add: instance0_def)
  show ?thesis
    using two_ticks_both_commit [OF h, of "''t1''" rnd0 rnd0] h unfolding t by simp
qed


section \<open>Game state\<close>






section \<open>Attack and item handlers\<close>

lemma updateCharacter_keeps_hp:
  "(\<And>c. current_hp (f c) = current_hp c) \<Longrightarrow>
     map current_hp (characters_table (updateCharacter st i f)) = map current_hp (characters_table st)"
  by (simp add: updateCharacter_def map_update_first)


text \<open>
  Claim C4, amended. Both attack handlers resolve the attack against the goblin that
  they build afresh, the one of \<^verbatim>\<open>GameEngine\<close> with \<^verbatim>\<open>resolveAttack\<close> and the one
  of the tick function with its own dice, and apply skill progression for the skill
  used. Hit or miss, their only write to the store is the attacker's skill map, made
  exactly when the skill levelled up: the damage is reported in the result, the goblin
  object is unchanged after the call, and no stored hit points change.
\<close>

theorem attack_handlers_write_only_skills:
  assumes "skills ch = Some sk"
  shows "(\<exists>r st'. processAttackCommand d st ch p gi = Inr (r, st')
            \<and> res_target r = Some ''Goblin''
            \<and> res_skill r = Some (skill_or (skill_suggested p) ''swordsmanship'')
            \<and> success r = (rollD20 (draw2 d) + 3
                            \<le> rollD20 (draw1 d) + skill_level sk (skill_or (skill_suggested p) ''swordsmanship''))
            \<and> (success r \<longrightarrow> (\<exists>n. res_damage r = Some n \<and> 1 \<le> n))
            \<and> st' = (if progress_hit (draw3 d) (skill_level sk (skill_or (skill_suggested p) ''swordsmanship''))
                      then updateCharacter st (character_id ch)
                             (\<lambda>c. c\<lparr>skills := Some (AList.update (skill_or (skill_suggested p) ''swordsmanship'')
                                       (min (skill_level sk (skill_or (skill_suggested p) ''swordsmanship'') + 1) 100) sk)\<rparr>)
                      else st)
            \<and> map current_hp (characters_table st') = map current_hp (characters_table st)
            \<and> game_instances st' = game_instances st \<and> dungeons st' = dungeons st
            \<and> commands st' = commands st)
       \<and> (\<exists>out ch' st'. GameEngine_processAttackCommand d st ch p = Inr (out, ch', goblinEnemy, st')
            \<and> resolveAttack (draw1 d) (draw2 d) ch goblinEnemy (skill_or (skill_suggested p) ''swordsmanship'')
                 no_modifiers no_modifiers = Inr (ea_attackResult out, ch, goblinEnemy)
            \<and> processSkillProgression (draw3 d) ch (skill_or (skill_suggested p) ''swordsmanship'')
                 = Inr (ea_skillProgress out, ch')
            \<and> ea_success out = hit (ea_attackResult out)
            \<and> current_hp ch' = current_hp ch
            \<and> st' = (if leveledUp (ea_skillProgress out)
                      then updateCharacter st (character_id ch) (\<lambda>c. c\<lparr>skills := skills ch'\<rparr>)
                      else st)
            \<and> map current_hp (characters_table st') = map current_hp (characters_table st)
            \<and> game_instances st' = game_instances st \<and> dungeons st' = dungeons st
            \<and> commands st' = commands st)"
proof -
  let ?skillId = "skill_or (skill_suggested p) ''swordsmanship''"
  have tick: "\<exists>r st'. processAttackCommand d st ch p gi = Inr (r, st')
            \<and> res_target r = Some ''Goblin''
            \<and> res_skill r = Some ?skillId
            \<and> success r = (rollD20 (draw2 d) + 3 \<le> rollD20 (draw1 d) + skill_level sk ?skillId)
            \<and> (success r \<longrightarrow> (\<exists>n. res_damage r = Some n \<and> 1 \<le> n))
            \<and> st' = (if progress_hit (draw3 d) (skill_level sk ?skillId)
                      then updateCharacter st (character_id ch)
                             (\<lambda>c. c\<lparr>skills := Some (AList.update ?skillId (min (skill_level sk ?skillId + 1) 100) sk)\<rparr>)
                      else st)
            \<and> map current_hp (characters_table st') = map current_hp (characters_table st)
            \<and> game_instances st' = game_instances st \<and> dungeons st' = dungeons st
            \<and> commands st' = commands st"
  proof -
    have pos: "\<And>x::int. 1 \<le> max 1 x * 2" "\<And>x::int. 1 \<le> max 1 x"
      by (simp_all add: max_def)
    show ?thesis
      using assms pos
      by (simp add: processAttackCommand_def Let_def goblinEnemy_def or_zero_def empty_result_def
          updateCharacter_keeps_hp updateCharacter_frame)
  qed
  obtain a where ra: "resolveAttack (draw1 d) (draw2 d) ch goblinEnemy ?skillId no_modifiers no_modifiers
      = Inr (a, ch, goblinEnemy)"
    using assms by (simp add: resolveAttack_def Let_def)
  obtain pr ch' where sp: "processSkillProgression (draw3 d) ch ?skillId = Inr (pr, ch')"
    and hp: "current_hp ch' = current_hp ch" and cid: "character_id ch' = character_id ch"
    and nm: "character_name ch' = character_name ch"
    using assms by (cases "progress_hit (draw3 d) (skill_level sk ?skillId)")
      (simp_all add: processSkillProgression_def Let_def)
  let ?st' = "if leveledUp pr then updateCharacter st (character_id ch) (\<lambda>c. c\<lparr>skills := skills ch'\<rparr>) else st"
  have run: "GameEngine_processAttackCommand d st ch p
      = Inr (\<lparr>ea_success = hit a, ea_attackResult = a, ea_skillProgress = pr,
               ea_character = character_name ch, ea_target = ''Goblin'', ea_skillUsed = ?skillId\<rparr>,
             ch', goblinEnemy, ?st')"
    using ra sp cid nm by (simp add: GameEngine_processAttackCommand_def Let_def) (simp add: goblinEnemy_def)
  have fr: "map current_hp (characters_table ?st') = map current_hp (characters_table st)
      \<and> game_instances ?st' = game_instances st \<and> dungeons ?st' = dungeons st \<and> commands ?st' = commands st"
    by (simp add: updateCharacter_keeps_hp updateCharacter_frame)
  have engine: "\<exists>out ch' st'. GameEngine_processAttackCommand d st ch p = Inr (out, ch', goblinEnemy, st')
            \<and> resolveAttack (draw1 d) (draw2 d) ch goblinEnemy ?skillId no_modifiers no_modifiers
                 = Inr (ea_attackResult out, ch, goblinEnemy)
            \<and> processSkillProgression (draw3 d) ch ?skillId = Inr (ea_skillProgress out, ch')
            \<and> ea_success out = hit (ea_attackResult out)
            \<and> current_hp ch' = current_hp ch
            \<and> st' = (if leveledUp (ea_skillProgress out)
                      then updateCharacter st (character_id ch) (\<lambda>c. c\<lparr>skills := skills ch'\<rparr>)
                      else st)
            \<and> map current_hp (characters_table st') = map current_hp (characters_table st)
            \<and> game_instances st' = game_instances st \<and> dungeons st' = dungeons st
            \<and> commands st' = commands st"
    using run ra sp hp fr by simp
  from tick engine show ?thesis by blast
qed

text \<open>
  Claim C4 as stated fails: a critical hit for \<open>4\<close> damage leaves the store as it was
  and the goblin at \<open>10\<close> hit points, in both handlers.
\<close>

theorem attack_hit_changes_no_hp_counterexample:
  "GameEngine_processAttackCommand draws0 store0 hero (parseCommandFallback ''attack'')
     = Inr (engine_attack0, hero, goblinEnemy, store0)
   \<and> ea_success engine_attack0 \<and> actualDamage (ea_attackResult engine_attack0) = 4
   \<and> current_hp goblinEnemy = 10
   \<and> processAttackCommand draws0 store0 hero (parseCommandFallback ''attack'') instance0
     = Inr (attack0\<lparr>res_character_id := None\<rparr>, store0)
   \<and> success attack0 \<and> res_damage attack0 = Some 4"
  by (simp add: GameEngine_processAttackCommand_def resolveAttack_def processSkillProgression_def
      calculateAttackRoll_def calculateDefenseRoll_def calculateDamage_def getWeaponDamage_def
      main_hand_def weaponStats_def no_modifiers_def engine_attack0_def tick_eval_defs)

theorem attack_handlers_write_only_skills_witness:
  "skills hero = Some [(''swordsmanship'', 5), (''dodge'', 3)]
   \<and> (\<exists>r st'. processAttackCommand draws0 store0 hero (parseCommandFallback ''attack'') instance0 = Inr (r, st')
         \<and> success r \<and> st' = store0)
   \<and> (\<exists>out ch' st'. GameEngine_processAttackCommand draws0 store0 hero (parseCommandFallback ''attack'')
          = Inr (out, ch', goblinEnemy, st')
         \<and> ea_success out \<and> map current_hp (characters_table st') = [20])"
proof -
  have h: "skills hero = Some [(''swordsmanship'', 5), (''dodge'', 3)]" by (simp add: hero_def)
  have s: "skill_or (skill_suggested (parseCommandFallback ''attack'')) ''swordsmanship'' = ''swordsmanship''"
    by (simp add: tick_eval_defs)
  have v: "rollD20 (draw1 draws0) = 20" "rollD20 (draw2 draws0) = 1"
    "\<not> progress_hit (draw3 draws0) 5"
    "skill_level [(''swordsmanship'', 5), (''dodge'', 3)] ''swordsmanship'' = 5"
    by (simp_all add: tick_eval_defs)
  have c: "map current_hp (characters_table store0) = [20]" by (simp add: store0_def hero_def)
  have hit: "\<forall>a c g. resolveAttack (draw1 draws0) (draw2 draws0) hero goblinEnemy ''swordsmanship''
      no_modifiers no_modifiers = Inr (a, c, g) \<longrightarrow> hit a"
    by (auto simp add: resolveAttack_def calculateAttackRoll_def calculateDefenseRoll_def
        no_modifiers_def tick_eval_defs)
  show ?thesis
    using attack_handlers_write_only_skills [OF h, of draws0 store0 "parseCommandFallback ''attack''" instance0]
      h hit
    by (simp add: s v c) fastforce
qed







end
